theory Spec2Isabelle
  imports Main "HOL-Library.Word"
begin

unbundle bit_operations_syntax

section \<open>The FT6x36 touch driver (lvgl\_touch/ft6x36.c)\<close>

subsection \<open>Types of the driver and of its collaborators\<close>

text \<open>
  \<open>esp_err_t\<close> is a 32-bit status code of which the driver only ever asks whether it is
  \<open>ESP_OK\<close>; it is kept as an integer.
\<close>

type_synonym esp_err_t = int

definition ESP_OK :: esp_err_t where
  "ESP_OK = 0"

text \<open>The two input-device states of the GUI library that the driver writes.\<close>

datatype lv_indev_state_t = LV_INDEV_STATE_REL | LV_INDEV_STATE_PR

text \<open>
  \<open>ft6x36_touch_t\<close>: the last sample, with \<open>int16_t\<close> coordinates. A 16-bit word holds
  the bits; \<open>sint\<close> reads the C value, so the initial \<open>-1\<close> is the word \<open>0xFFFF\<close>.
\<close>

record ft6x36_touch_t =
  last_x :: "16 word"
  last_y :: "16 word"
  current_state :: lv_indev_state_t

text \<open>
  The fields of \<open>lv_indev_data_t\<close> that the driver writes: \<open>point.x\<close>, \<open>point.y\<close>
  (\<open>lv_coord_t\<close>, 16 bits) and \<open>state\<close>. The structure's other fields are never
  accessed by this file; they are the extension of the record, which the driver's
  functions pass through.
\<close>

record lv_indev_data_t =
  point_x :: "16 word"
  point_y :: "16 word"
  state :: lv_indev_state_t

text \<open>
  Everything that ft6x36.c takes from headers and from the build configuration. None of
  it is defined in the file itself, so it is a parameter of the model:
  the \<open>CONFIG_LV_FT6X36_*\<close> switches, the touch I2C port, the display resolution
  behind \<open>LV_HOR_RES\<close> and \<open>LV_VER_RES\<close> (\<open>lv_coord_t\<close> values), the two coordinate
  masks and the register offsets of ft6x36.h. A mask is kept as a byte, since it is only
  ever combined by \<open>&\<close> with a byte of the receive buffer.
\<close>

record config =
  coordinates_queue :: bool
  swapxy :: bool
  invert_x :: bool
  invert_y :: bool
  i2c_touch_port :: int
  hor_res :: "16 word"
  ver_res :: "16 word"
  msb_mask :: "8 word"
  lsb_mask :: "8 word"
  td_stat_reg :: "8 word"
  gest_id_reg :: "8 word"
  panel_id_reg :: "8 word"
  chipselect_reg :: "8 word"
  dev_mode_reg :: "8 word"
  firmware_id_reg :: "8 word"
  releasecode_reg :: "8 word"

text \<open>
  A receive buffer is a local array of the calling function. It is not initialised before
  the bus read, so its content before the read is an input of the model, indexed by
  offset.
\<close>

type_synonym buffer = "nat \<Rightarrow> 8 word"

text \<open>
  What the bus does on one read: the status code it returns and the bytes it stores at
  the start of the caller's buffer (a failed transfer may store none).
\<close>

record i2c_answer =
  ans_err :: esp_err_t
  ans_bytes :: "8 word list"

text \<open>One read as the bus sees it: port, slave address, register offset, length.\<close>

type_synonym i2c_req = "int \<times> 8 word \<times> 8 word \<times> nat"

text \<open>The log lines of the file, one constructor for each format string.\<close>

datatype log_line =
  E_init_first
  | E_error_reading_from_device esp_err_t
  | E_error_talking_to_touch_ic esp_err_t
  | E_error_creating_queue
  | I_found_touch_panel_controller
  | I_device_id "8 word"
  | I_chip_id "8 word"
  | I_device_mode "8 word"
  | I_firmware_id "8 word"
  | I_release_code "8 word"
  | V_x_y "16 word" "16 word"

text \<open>
  The FreeRTOS queue of \<open>FT6X36_TOUCH_QUEUE_ELEMENTS = 1\<close> elements: the items it holds,
  oldest first. The handle is \<open>None\<close> for \<open>NULL\<close>.
\<close>

type_synonym queue = "ft6x36_touch_t list"

definition FT6X36_TOUCH_QUEUE_ELEMENTS :: nat where
  "FT6X36_TOUCH_QUEUE_ELEMENTS = 1"

text \<open>
  The file's static variables, followed by what the driver has done to its environment:
  the bus reads issued, the lines logged and the items it has put into a queue, each in
  order.
\<close>

record driver =
  inited :: bool
  current_dev_addr :: "8 word"
  touch_inputs :: ft6x36_touch_t
  ft6x36_touch_queue_handle :: "queue option"
  i2c_reads :: "i2c_req list"
  esp_log :: "log_line list"
  queue_puts :: "ft6x36_touch_t list"

text \<open>
  The program's state before any call: the zero-initialised statics and the initialiser
  of \<open>touch_inputs\<close>, \<open>{ -1, -1, LV_INDEV_STATE_REL }\<close>.
\<close>

definition sentinel :: ft6x36_touch_t where
  "sentinel = \<lparr>last_x = - 1, last_y = - 1, current_state = LV_INDEV_STATE_REL\<rparr>"

definition power_on :: driver where
  "power_on = \<lparr>inited = False, current_dev_addr = 0, touch_inputs = sentinel,
     ft6x36_touch_queue_handle = None, i2c_reads = [], esp_log = [], queue_puts = []\<rparr>"

text \<open>
  A queue call on a \<open>NULL\<close> handle does not return: FreeRTOS asserts on the handle, and
  without the assertion dereferences it.
\<close>

datatype fault = Null_queue_handle

subsection \<open>The collaborators\<close>

definition esp_logx :: "log_line \<Rightarrow> driver \<Rightarrow> driver" where
  "esp_logx l s = s\<lparr>esp_log := esp_log s @ [l]\<rparr>"

text \<open>
  Modelled from the spec: \<open>lvgl_i2c_read\<close> of lvgl\_i2c/i2c\_manager, which is not part
  of the file (``\<open>read(port, slave_address, register_address, buffer, length) ->
  StatusCode\<close>''). The read is recorded, the answer's bytes overlay the first \<open>len\<close>
  positions of the buffer, the rest of the buffer keeps what it held.
\<close>

definition lvgl_i2c_read ::
  "int \<Rightarrow> 8 word \<Rightarrow> 8 word \<Rightarrow> buffer \<Rightarrow> nat \<Rightarrow> i2c_answer \<Rightarrow> driver
     \<Rightarrow> esp_err_t \<times> buffer \<times> driver" where
  "lvgl_i2c_read port slave_addr register_addr data_buf len ans s =
     (ans_err ans,
      (\<lambda>i. if i < len \<and> i < length (ans_bytes ans) then ans_bytes ans ! i else data_buf i),
      s\<lparr>i2c_reads := i2c_reads s @ [(port, slave_addr, register_addr, len)]\<rparr>)"

definition ft6x06_i2c_read8 ::
  "config \<Rightarrow> 8 word \<Rightarrow> 8 word \<Rightarrow> buffer \<Rightarrow> i2c_answer \<Rightarrow> driver
     \<Rightarrow> esp_err_t \<times> buffer \<times> driver" where
  "ft6x06_i2c_read8 cfg slave_addr register_addr data_buf ans s =
     lvgl_i2c_read (i2c_touch_port cfg) slave_addr register_addr data_buf 1 ans s"

text \<open>
  \<open>xQueueCreate\<close>: a new empty queue, or \<open>NULL\<close> when the allocation fails, which the
  environment decides.
\<close>

definition xQueueCreate :: "bool \<Rightarrow> queue option" where
  "xQueueCreate alloc_ok = (if alloc_ok then Some [] else None)"

text \<open>
  \<open>xQueueSend\<close> with no waiting stores the item when the queue has room and otherwise
  leaves the queue as it is; \<open>xQueueOverwrite\<close> replaces the content of a one-element
  queue. Both act on the queue behind the driver's handle.
\<close>

definition xQueueSend :: "ft6x36_touch_t \<Rightarrow> driver \<Rightarrow> fault + driver" where
  "xQueueSend item s =
     (case ft6x36_touch_queue_handle s of
        None \<Rightarrow> Inl Null_queue_handle
      | Some q \<Rightarrow>
          if length q < FT6X36_TOUCH_QUEUE_ELEMENTS
          then Inr (s\<lparr>ft6x36_touch_queue_handle := Some (q @ [item]),
                      queue_puts := queue_puts s @ [item]\<rparr>)
          else Inr s)"

definition xQueueOverwrite :: "ft6x36_touch_t \<Rightarrow> driver \<Rightarrow> fault + driver" where
  "xQueueOverwrite item s =
     (case ft6x36_touch_queue_handle s of
        None \<Rightarrow> Inl Null_queue_handle
      | Some q \<Rightarrow>
          Inr (s\<lparr>ft6x36_touch_queue_handle := Some [item],
                  queue_puts := queue_puts s @ [item]\<rparr>))"

subsection \<open>ft6x36\_get\_gesture\_id\<close>

text \<open>
  The assignment in the condition binds weaker than \<open>!=\<close>: \<open>ret\<close> receives the result
  of the comparison, 1 or 0, and that is what the error line prints. The function returns
  \<open>data_buf\<close> on both paths.
\<close>

definition ft6x36_get_gesture_id ::
  "config \<Rightarrow> buffer \<Rightarrow> i2c_answer \<Rightarrow> driver \<Rightarrow> 8 word \<times> driver" where
  "ft6x36_get_gesture_id cfg data_buf ans s =
     (if \<not> inited s then (0, esp_logx E_init_first s)
      else
        let (rc, data_buf', s1) =
              ft6x06_i2c_read8 cfg (current_dev_addr s) (gest_id_reg cfg) data_buf ans s;
            ret = (if rc \<noteq> ESP_OK then 1 else 0);
            s2 = (if ret \<noteq> 0 then esp_logx (E_error_reading_from_device ret) s1 else s1)
        in (data_buf' 0, s2))"

subsection \<open>ft6x06\_init\<close>

text \<open>
  The answers of the bus to the five diagnostic reads, in the order of the reads.
\<close>

record init_answers =
  panel_id_ans :: i2c_answer
  chipselect_ans :: i2c_answer
  dev_mode_ans :: i2c_answer
  firmware_id_ans :: i2c_answer
  releasecode_ans :: i2c_answer

text \<open>
  \<open>dev_addr\<close> is a \<open>uint16_t\<close>; both \<open>current_dev_addr\<close> and the \<open>slave_addr\<close>
  parameter of \<open>ft6x06_i2c_read8\<close> are \<open>uint8_t\<close>, so each use converts it. Only the
  first read's status is looked at. One local \<open>data_buf\<close> serves all five reads. With
  the queue compiled in, a failed \<open>xQueueCreate\<close> returns before the send; the send
  after a successful one passes the current \<open>touch_inputs\<close>.
\<close>

definition ft6x06_init ::
  "config \<Rightarrow> buffer \<Rightarrow> init_answers \<Rightarrow> bool \<Rightarrow> 16 word \<Rightarrow> driver \<Rightarrow> fault + driver" where
  "ft6x06_init cfg data_buf answers alloc_ok dev_addr s =
     (let s0 = s\<lparr>inited := True, current_dev_addr := ucast dev_addr\<rparr>;
          s1 = esp_logx I_found_touch_panel_controller s0;
          (rc, b1, s2) =
            ft6x06_i2c_read8 cfg (ucast dev_addr) (panel_id_reg cfg) data_buf
              (panel_id_ans answers) s1;
          ret = (if rc \<noteq> ESP_OK then 1 else 0);
          s3 = (if ret \<noteq> 0 then esp_logx (E_error_reading_from_device ret) s2 else s2);
          s4 = esp_logx (I_device_id (b1 0)) s3;
          (rc2, b2, s5) =
            ft6x06_i2c_read8 cfg (ucast dev_addr) (chipselect_reg cfg) b1
              (chipselect_ans answers) s4;
          s6 = esp_logx (I_chip_id (b2 0)) s5;
          (rc3, b3, s7) =
            ft6x06_i2c_read8 cfg (ucast dev_addr) (dev_mode_reg cfg) b2
              (dev_mode_ans answers) s6;
          s8 = esp_logx (I_device_mode (b3 0)) s7;
          (rc4, b4, s9) =
            ft6x06_i2c_read8 cfg (ucast dev_addr) (firmware_id_reg cfg) b3
              (firmware_id_ans answers) s8;
          s10 = esp_logx (I_firmware_id (b4 0)) s9;
          (rc5, b5, s11) =
            ft6x06_i2c_read8 cfg (ucast dev_addr) (releasecode_reg cfg) b4
              (releasecode_ans answers) s10;
          s12 = esp_logx (I_release_code (b5 0)) s11
      in if coordinates_queue cfg then
           (let s13 = s12\<lparr>ft6x36_touch_queue_handle := xQueueCreate alloc_ok\<rparr>
            in if ft6x36_touch_queue_handle s13 = None
               then Inr (esp_logx E_error_creating_queue s13)
               else xQueueSend (touch_inputs s13) s13)
         else Inr s12)"

subsection \<open>ft6x36\_read\<close>

text \<open>
  The coordinate of lines 136 and 137: the two masked bytes are combined as \<open>int\<close> and
  the result is converted to the \<open>int16_t\<close> field.
\<close>

definition decode :: "config \<Rightarrow> 8 word \<Rightarrow> 8 word \<Rightarrow> 16 word" where
  "decode cfg hi lo =
     ucast (push_bit 8 (ucast (hi AND msb_mask cfg) :: 32 word)
            OR (ucast (lo AND lsb_mask cfg) :: 32 word))"

text \<open>
  Lines 139 to 149, on the stored sample: the three conditionally compiled blocks in the
  order of the file. The subtraction is done in \<open>int\<close> and converted back to
  \<open>int16_t\<close>, which is the subtraction of 16-bit words.
\<close>

definition swap_block :: "config \<Rightarrow> ft6x36_touch_t \<Rightarrow> ft6x36_touch_t" where
  "swap_block cfg t =
     (if swapxy cfg then
        (let swap_buf = last_x t;
             t1 = t\<lparr>last_x := last_y t\<rparr>
         in t1\<lparr>last_y := swap_buf\<rparr>)
      else t)"

definition invert_x_block :: "config \<Rightarrow> ft6x36_touch_t \<Rightarrow> ft6x36_touch_t" where
  "invert_x_block cfg t =
     (if invert_x cfg then t\<lparr>last_x := hor_res cfg - last_x t\<rparr> else t)"

definition invert_y_block :: "config \<Rightarrow> ft6x36_touch_t \<Rightarrow> ft6x36_touch_t" where
  "invert_y_block cfg t =
     (if invert_y cfg then t\<lparr>last_y := ver_res cfg - last_y t\<rparr> else t)"

text \<open>
  The result is the returned flag, the caller's structure and the driver afterwards, or
  the fault of a queue call on a \<open>NULL\<close> handle. The guard returns before anything else
  is done. \<open>touch_pnt_cnt\<close> is read from the buffer also after a failed read, but the
  test looks at \<open>ret\<close> first.
\<close>

definition ft6x36_read ::
  "config \<Rightarrow> buffer \<Rightarrow> i2c_answer \<Rightarrow> 'a lv_indev_data_t_scheme \<Rightarrow> driver
     \<Rightarrow> fault + (bool \<times> 'a lv_indev_data_t_scheme \<times> driver)" where
  "ft6x36_read cfg data_buf0 ans data s =
     (if \<not> inited s then Inr (False, data, esp_logx E_init_first s)
      else
        let (ret, data_buf, s1) =
              lvgl_i2c_read (i2c_touch_port cfg) (current_dev_addr s) (td_stat_reg cfg)
                data_buf0 5 ans s;
            s2 = (if ret \<noteq> ESP_OK then esp_logx (E_error_talking_to_touch_ic ret) s1 else s1);
            touch_pnt_cnt = data_buf 0
        in
          if ret \<noteq> ESP_OK \<or> touch_pnt_cnt \<noteq> 1 then
            (case
               (if current_state (touch_inputs s2) \<noteq> LV_INDEV_STATE_REL then
                  (let s3 = s2\<lparr>touch_inputs :=
                               (touch_inputs s2)\<lparr>current_state := LV_INDEV_STATE_REL\<rparr>\<rparr>
                   in if coordinates_queue cfg then xQueueOverwrite (touch_inputs s3) s3
                      else Inr s3)
                else Inr s2)
             of
               Inl f \<Rightarrow> Inl f
             | Inr s4 \<Rightarrow>
                 Inr (False,
                      data\<lparr>point_x := last_x (touch_inputs s4),
                           point_y := last_y (touch_inputs s4),
                           state := current_state (touch_inputs s4)\<rparr>,
                      s4))
          else
            (let t1 = (touch_inputs s2)\<lparr>current_state := LV_INDEV_STATE_PR\<rparr>;
                 t2 = t1\<lparr>last_x := decode cfg (data_buf 1) (data_buf 2)\<rparr>;
                 t3 = t2\<lparr>last_y := decode cfg (data_buf 3) (data_buf 4)\<rparr>;
                 t4 = invert_y_block cfg (invert_x_block cfg (swap_block cfg t3));
                 s3 = s2\<lparr>touch_inputs := t4\<rparr>;
                 data' = data\<lparr>point_x := last_x (touch_inputs s3),
                              point_y := last_y (touch_inputs s3),
                              state := current_state (touch_inputs s3)\<rparr>;
                 s4 = esp_logx (V_x_y (point_x data') (point_y data')) s3
             in case (if coordinates_queue cfg then xQueueOverwrite (touch_inputs s4) s4
                      else Inr s4)
                of
                  Inl f \<Rightarrow> Inl f
                | Inr s5 \<Rightarrow> Inr (False, data', s5)))"

subsection \<open>Vocabulary of the properties\<close>

text \<open>
  The buffer \<open>data_buf\<close> of \<open>ft6x36_read\<close> after its five-byte read.
\<close>

definition received :: "buffer \<Rightarrow> i2c_answer \<Rightarrow> buffer" where
  "received data_buf0 ans =
     (\<lambda>i. if i < 5 \<and> i < length (ans_bytes ans) then ans_bytes ans ! i else data_buf0 i)"

text \<open>
  The poll took the second branch of \<open>ft6x36_read\<close>: the read succeeded and the status
  byte reports one touch point.
\<close>

definition single_touch :: "buffer \<Rightarrow> i2c_answer \<Rightarrow> bool" where
  "single_touch data_buf0 ans \<longleftrightarrow> ans_err ans = ESP_OK \<and> received data_buf0 ans 0 = 1"

text \<open>Where the queue is compiled in, \<open>xQueueCreate\<close> has given the driver a queue.\<close>

definition queue_usable :: "config \<Rightarrow> driver \<Rightarrow> bool" where
  "queue_usable cfg s \<longleftrightarrow> (coordinates_queue cfg \<longrightarrow> ft6x36_touch_queue_handle s \<noteq> None)"

text \<open>
  The sample that lines 135 to 149 build from a received buffer.
\<close>

definition fresh_sample :: "config \<Rightarrow> buffer \<Rightarrow> ft6x36_touch_t" where
  "fresh_sample cfg data_buf =
     invert_y_block cfg (invert_x_block cfg (swap_block cfg
       \<lparr>last_x = decode cfg (data_buf 1) (data_buf 2),
        last_y = decode cfg (data_buf 3) (data_buf 4),
        current_state = LV_INDEV_STATE_PR\<rparr>))"

text \<open>
  The input task of the GUI library calls \<open>ft6x36_read\<close> once on every tick. A run of
  ticks is the list of what each call meets: the stale content of its buffer, the answer
  of the bus and the structure it is to fill. A fault ends the run.
\<close>

fun polls ::
  "config \<Rightarrow> (buffer \<times> i2c_answer \<times> 'a lv_indev_data_t_scheme) list \<Rightarrow> driver
    \<Rightarrow> fault + driver" where
  "polls cfg [] s = Inr s"
| "polls cfg ((data_buf0, ans, data) # ticks) s =
     (case ft6x36_read cfg data_buf0 ans data s of
        Inl f \<Rightarrow> Inl f
      | Inr (more_data, data', s') \<Rightarrow> polls cfg ticks s')"

text \<open>A buffer that holds the same stale byte at every offset.\<close>

definition filled :: "8 word \<Rightarrow> buffer" where
  "filled v = (\<lambda>i. v)"

text \<open>
  Modelled from the spec: the masks of ft6x36.h, which is not among the sources (``4-bit
  high nibble + 8-bit low byte''), and the resolution 320 by 240 of the spec's example.
  The register offsets are those of the controller's data sheet; no property depends on
  them. \<open>panel\<close> is a build with all switches given, the queue compiled in.
\<close>

definition panel :: "bool \<Rightarrow> bool \<Rightarrow> bool \<Rightarrow> config" where
  "panel sw ix iy =
     \<lparr>coordinates_queue = True, swapxy = sw, invert_x = ix, invert_y = iy,
      i2c_touch_port = 0, hor_res = 320, ver_res = 240,
      msb_mask = 0x0F, lsb_mask = 0xFF,
      td_stat_reg = 0x02, gest_id_reg = 0x01, panel_id_reg = 0xA8, chipselect_reg = 0xA3,
      dev_mode_reg = 0x00, firmware_id_reg = 0xA6, releasecode_reg = 0xAF\<rparr>"

text \<open>A bus answer that delivers the given bytes, and one that fails and stores nothing.\<close>

definition delivers :: "8 word list \<Rightarrow> i2c_answer" where
  "delivers bs = \<lparr>ans_err = ESP_OK, ans_bytes = bs\<rparr>"

definition ESP_FAIL :: esp_err_t where
  "ESP_FAIL = - 1"

definition fails :: i2c_answer where
  "fails = \<lparr>ans_err = ESP_FAIL, ans_bytes = []\<rparr>"

text \<open>
  The five diagnostic reads all answered with the byte \<open>0x11\<close>, and the same with only
  the first of them answered.
\<close>

definition probe :: init_answers where
  "probe = \<lparr>panel_id_ans = delivers [0x11], chipselect_ans = delivers [0x11],
     dev_mode_ans = delivers [0x11], firmware_id_ans = delivers [0x11],
     releasecode_ans = delivers [0x11]\<rparr>"

definition probe_cut :: init_answers where
  "probe_cut = \<lparr>panel_id_ans = delivers [0x11], chipselect_ans = fails,
     dev_mode_ans = fails, firmware_id_ans = fails, releasecode_ans = fails\<rparr>"

text \<open>
  The driver after \<open>ft6x06_init\<close> has been called once after power-on, in a \<open>panel\<close>
  build, with address \<open>0x38\<close>, the answers \<open>probe\<close> and a queue allocated; and the
  driver after a following poll that met one touch at (5, 7), in a build without
  orientation switches.
\<close>

definition booted :: driver where
  "booted =
     \<lparr>inited = True, current_dev_addr = 0x38, touch_inputs = sentinel,
      ft6x36_touch_queue_handle = Some [sentinel],
      i2c_reads = [(0, 0x38, 0xA8, 1), (0, 0x38, 0xA3, 1), (0, 0x38, 0x00, 1),
                   (0, 0x38, 0xA6, 1), (0, 0x38, 0xAF, 1)],
      esp_log = [I_found_touch_panel_controller, I_device_id 0x11, I_chip_id 0x11,
                 I_device_mode 0x11, I_firmware_id 0x11, I_release_code 0x11],
      queue_puts = [sentinel]\<rparr>"

definition touched :: driver where
  "touched =
     booted\<lparr>touch_inputs := \<lparr>last_x = 5, last_y = 7, current_state = LV_INDEV_STATE_PR\<rparr>,
            ft6x36_touch_queue_handle :=
              Some [\<lparr>last_x = 5, last_y = 7, current_state = LV_INDEV_STATE_PR\<rparr>],
            i2c_reads := i2c_reads booted @ [(0, 0x38, 0x02, 5)],
            esp_log := esp_log booted @ [V_x_y 5 7],
            queue_puts :=
              [sentinel, \<lparr>last_x = 5, last_y = 7, current_state = LV_INDEV_STATE_PR\<rparr>]\<rparr>"

text \<open>
  Two drivers whose \<open>xQueueCreate\<close> failed, both in a \<open>panel\<close> build with address
  \<open>0x38\<close> and the answers \<open>probe\<close>: \<open>unqueued\<close> after the first call of
  \<open>ft6x06_init\<close> since power-on, \<open>stranded\<close> after a second call made in the state
  \<open>touched\<close>.
\<close>

definition unqueued :: driver where
  "unqueued =
     booted\<lparr>ft6x36_touch_queue_handle := None,
            esp_log := esp_log booted @ [E_error_creating_queue],
            queue_puts := []\<rparr>"

definition stranded :: driver where
  "stranded =
     touched\<lparr>ft6x36_touch_queue_handle := None,
             i2c_reads := i2c_reads touched @
               [(0, 0x38, 0xA8, 1), (0, 0x38, 0xA3, 1), (0, 0x38, 0x00, 1),
                (0, 0x38, 0xA6, 1), (0, 0x38, 0xAF, 1)],
             esp_log := esp_log touched @
               [I_found_touch_panel_controller, I_device_id 0x11, I_chip_id 0x11,
                I_device_mode 0x11, I_firmware_id 0x11, I_release_code 0x11,
                E_error_creating_queue]\<rparr>"

section \<open>Properties\<close>

subsection \<open>The two branches of ft6x36\_read in closed form\<close>

lemma lvgl_i2c_read_5:
  "lvgl_i2c_read p sl r b 5 a s =
     (ans_err a, received b a, s\<lparr>i2c_reads := i2c_reads s @ [(p, sl, r, 5)]\<rparr>)"
  by (simp add: lvgl_i2c_read_def received_def)

lemma all_fields:
  "t\<lparr>current_state := c, last_x := x, last_y := y\<rparr> =
     \<lparr>last_x = x, last_y = y, current_state = c\<rparr>"
  by (cases t) simp

lemma fresh_sample_alt:
  "invert_y_block cfg (invert_x_block cfg (swap_block cfg
     (t\<lparr>current_state := LV_INDEV_STATE_PR,
        last_x := decode cfg (buf (Suc 0)) (buf 2),
        last_y := decode cfg (buf 3) (buf 4)\<rparr>))) = fresh_sample cfg buf"
  by (simp add: fresh_sample_def all_fields)

lemma fresh_sample_state: "current_state (fresh_sample cfg buf) = LV_INDEV_STATE_PR"
  by (simp add: fresh_sample_def swap_block_def invert_x_block_def invert_y_block_def Let_def)

text \<open>
  A poll that is not a single touch: the sample keeps its coordinates and is Released,
  the caller's structure receives it, and the queue is written only when the state was
  not Released before.
\<close>

lemma ft6x36_read_released:
  assumes "inited s" "\<not> single_touch b a"
  shows "ft6x36_read cfg b a d s =
    (if current_state (touch_inputs s) \<noteq> LV_INDEV_STATE_REL \<and> coordinates_queue cfg
        \<and> ft6x36_touch_queue_handle s = None
     then Inl Null_queue_handle
     else Inr (False,
       d\<lparr>point_x := last_x (touch_inputs s), point_y := last_y (touch_inputs s),
        state := LV_INDEV_STATE_REL\<rparr>,
       s\<lparr>touch_inputs := (touch_inputs s)\<lparr>current_state := LV_INDEV_STATE_REL\<rparr>,
         ft6x36_touch_queue_handle :=
           (if current_state (touch_inputs s) \<noteq> LV_INDEV_STATE_REL \<and> coordinates_queue cfg
            then Some [(touch_inputs s)\<lparr>current_state := LV_INDEV_STATE_REL\<rparr>]
            else ft6x36_touch_queue_handle s),
         i2c_reads := i2c_reads s @
           [(i2c_touch_port cfg, current_dev_addr s, td_stat_reg cfg, 5)],
         esp_log := esp_log s @
           (if ans_err a \<noteq> ESP_OK then [E_error_talking_to_touch_ic (ans_err a)] else []),
         queue_puts := queue_puts s @
           (if current_state (touch_inputs s) \<noteq> LV_INDEV_STATE_REL \<and> coordinates_queue cfg
            then [(touch_inputs s)\<lparr>current_state := LV_INDEV_STATE_REL\<rparr>] else [])\<rparr>))"
proof -
  have c: "ans_err a \<noteq> ESP_OK \<or> received b a 0 \<noteq> 1"
    using assms(2) by (simp add: single_touch_def)
  show ?thesis
  proof (cases "current_state (touch_inputs s) = LV_INDEV_STATE_REL")
    case True
    then have t: "(touch_inputs s)\<lparr>current_state := LV_INDEV_STATE_REL\<rparr> = touch_inputs s"
      by simp
    show ?thesis using assms(1) c True
      by (simp add: ft6x36_read_def lvgl_i2c_read_5 esp_logx_def t)
  next
    case False
    show ?thesis
    proof (cases "ft6x36_touch_queue_handle s")
      case None
      then show ?thesis using assms(1) c False
        by (simp add: ft6x36_read_def lvgl_i2c_read_5 esp_logx_def xQueueOverwrite_def)
    next
      case (Some q)
      then show ?thesis using assms(1) c False
        by (simp add: ft6x36_read_def lvgl_i2c_read_5 esp_logx_def xQueueOverwrite_def)
    qed
  qed
qed

text \<open>
  A single touch: the sample is the one built from the received bytes, the caller's
  structure receives it, and the queue is written whenever it is compiled in.
\<close>

lemma ft6x36_read_pressed:
  assumes "inited s" "single_touch b a"
  shows "ft6x36_read cfg b a d s =
    (if coordinates_queue cfg \<and> ft6x36_touch_queue_handle s = None
     then Inl Null_queue_handle
     else Inr (False,
       d\<lparr>point_x := last_x (fresh_sample cfg (received b a)),
        point_y := last_y (fresh_sample cfg (received b a)),
        state := LV_INDEV_STATE_PR\<rparr>,
       s\<lparr>touch_inputs := fresh_sample cfg (received b a),
         ft6x36_touch_queue_handle :=
           (if coordinates_queue cfg then Some [fresh_sample cfg (received b a)]
            else ft6x36_touch_queue_handle s),
         i2c_reads := i2c_reads s @
           [(i2c_touch_port cfg, current_dev_addr s, td_stat_reg cfg, 5)],
         esp_log := esp_log s @
           [V_x_y (last_x (fresh_sample cfg (received b a)))
                  (last_y (fresh_sample cfg (received b a)))],
         queue_puts := queue_puts s @
           (if coordinates_queue cfg then [fresh_sample cfg (received b a)] else [])\<rparr>))"
proof -
  have c: "ans_err a = ESP_OK" "received b a 0 = 1"
    using assms(2) by (simp_all add: single_touch_def)
  show ?thesis
  proof (cases "ft6x36_touch_queue_handle s")
    case None
    then show ?thesis using assms(1) c
      by (simp add: ft6x36_read_def lvgl_i2c_read_5 esp_logx_def xQueueOverwrite_def
          Let_def fresh_sample_alt fresh_sample_state)
  next
    case (Some q)
    then show ?thesis using assms(1) c
      by (simp add: ft6x36_read_def lvgl_i2c_read_5 esp_logx_def xQueueOverwrite_def
          Let_def fresh_sample_alt fresh_sample_state)
  qed
qed

text \<open>
  Why the properties below ask for a usable queue: with the queue compiled in and the
  handle \<open>NULL\<close>, as a failed \<open>xQueueCreate\<close> leaves it, a poll that meets a single
  touch reaches \<open>xQueueOverwrite\<close> and does not return.
\<close>

lemma null_queue_stops_read:
  "inited s \<Longrightarrow> single_touch b a \<Longrightarrow> coordinates_queue cfg \<Longrightarrow>
   ft6x36_touch_queue_handle s = None \<Longrightarrow>
     ft6x36_read cfg b a d s = Inl Null_queue_handle"
  by (simp add: ft6x36_read_pressed)

subsection \<open>The coordinate as a number\<close>

lemma decode_word:
  "decode cfg hi lo = push_bit 8 (ucast (hi AND msb_mask cfg)) OR ucast (lo AND lsb_mask cfg)"
  unfolding decode_def
  by (rule bit_word_eqI) (auto simp add: bit_simps)

lemma join_bytes_uint:
  fixes h l :: "8 word"
  shows "uint (push_bit 8 (ucast h) OR ucast l :: 16 word) = uint h * 256 + uint l"
proof -
  have d: "(push_bit 8 (ucast h) :: 16 word) AND ucast l = 0"
    by (rule bit_word_eqI) (auto simp add: bit_simps dest: bit_imp_le_length)
  have hb: "uint h < 256" using uint_lt2p [of h] by simp
  have lb: "uint l < 256" using uint_lt2p [of l] by simp
  have "(push_bit 8 (ucast h) OR ucast l :: 16 word) = push_bit 8 (ucast h) + ucast l"
    using disjunctive_add_eq_or [OF d] by simp
  moreover have "uint (ucast l :: 16 word) = uint l"
    by (simp add: uint_up_ucast is_up)
  moreover have "uint (push_bit 8 (ucast h) :: 16 word) = uint h * 256"
  proof -
    from hb have "uint h * 256 < 2 ^ 16" by simp
    moreover have "0 \<le> uint h * 256" by simp
    ultimately have "take_bit 16 (uint h * 256) = uint h * 256"
      by (simp add: take_bit_int_eq_self)
    moreover have "uint (push_bit 8 (ucast h) :: 16 word) =
        take_bit 16 (push_bit 8 (uint (ucast h :: 16 word)))"
      by (subst unsigned_push_bit_eq) simp
    moreover have "uint (ucast h :: 16 word) = uint h"
      by (simp add: uint_up_ucast is_up)
    ultimately show ?thesis
      by (simp only: push_bit_eq_mult) simp
  qed
  ultimately show ?thesis using hb lb
    by (simp add: uint_word_ariths take_bit_int_eq_self)
qed

lemma decode_uint:
  "uint (decode cfg hi lo) =
     push_bit 8 (uint (hi AND msb_mask cfg)) OR uint (lo AND lsb_mask cfg)"
proof -
  have hb: "uint (hi AND msb_mask cfg) < 256"
    using uint_lt2p [of "hi AND msb_mask cfg"] by simp
  then have "uint (hi AND msb_mask cfg) * 256 < 2 ^ 16" by simp
  moreover have "0 \<le> uint (hi AND msb_mask cfg) * 256" by simp
  ultimately have t: "take_bit 16 (uint (hi AND msb_mask cfg) * 256) =
      uint (hi AND msb_mask cfg) * 256"
    by (simp add: take_bit_int_eq_self)
  have "uint (push_bit 8 (ucast (hi AND msb_mask cfg)) :: 16 word) =
      take_bit 16 (push_bit 8 (uint (ucast (hi AND msb_mask cfg) :: 16 word)))"
    by (subst unsigned_push_bit_eq) simp
  moreover have "uint (ucast (hi AND msb_mask cfg) :: 16 word) = uint (hi AND msb_mask cfg)"
    by (simp add: uint_up_ucast is_up)
  ultimately have h: "uint (push_bit 8 (ucast (hi AND msb_mask cfg)) :: 16 word) =
      push_bit 8 (uint (hi AND msb_mask cfg))"
    using t by (simp only: push_bit_eq_mult) simp
  have l: "uint (ucast (lo AND lsb_mask cfg) :: 16 word) = uint (lo AND lsb_mask cfg)"
    by (simp add: uint_up_ucast is_up)
  show ?thesis
    unfolding decode_word uint_or h l ..
qed

lemma decode_sint:
  assumes "msb_mask cfg \<le> 0x7F"
  shows "sint (decode cfg hi lo) = uint (decode cfg hi lo)"
proof -
  have "hi AND msb_mask cfg \<le> msb_mask cfg" by (rule word_and_le1)
  with assms have "hi AND msb_mask cfg \<le> 0x7F" by simp
  then have hb: "uint (hi AND msb_mask cfg) \<le> 127"
    by (simp add: word_le_def)
  have lb: "uint (lo AND lsb_mask cfg) < 256"
    using uint_lt2p [of "lo AND lsb_mask cfg"] by simp
  have "uint (decode cfg hi lo) =
      uint (hi AND msb_mask cfg) * 256 + uint (lo AND lsb_mask cfg)"
    unfolding decode_word by (rule join_bytes_uint)
  with hb lb have "uint (decode cfg hi lo) < 2 ^ 15" by simp
  moreover have "- (2 ^ 15) \<le> uint (decode cfg hi lo)"
    by (rule order_trans [of _ 0]) simp_all
  ultimately have "signed_take_bit 15 (uint (decode cfg hi lo)) = uint (decode cfg hi lo)"
    by (simp add: signed_take_bit_int_eq_self)
  then show ?thesis by (simp add: sint_uint)
qed

lemma received_full:
  "ans_bytes a = [c0, c1, c2, c3, c4] \<Longrightarrow>
     received b a 0 = c0 \<and> received b a (Suc 0) = c1 \<and> received b a 2 = c2 \<and>
     received b a 3 = c3 \<and> received b a 4 = c4"
  by (simp add: received_def)

subsection \<open>The example states\<close>

lemmas example_defs = panel_def filled_def delivers_def fails_def ESP_FAIL_def ESP_OK_def
  booted_def touched_def sentinel_def power_on_def

lemma booted_is_init:
  "ft6x06_init (panel sw ix iy) (filled 0) probe True 0x38 power_on = Inr booted"
  by (simp add: ft6x06_init_def ft6x06_i2c_read8_def lvgl_i2c_read_def esp_logx_def
      xQueueCreate_def xQueueSend_def FT6X36_TOUCH_QUEUE_ELEMENTS_def Let_def probe_def
      example_defs)

lemma touched_is_read:
  "ft6x36_read (panel False False False) (filled 0) (delivers [1, 0, 5, 0, 7]) d booted =
     Inr (False, d\<lparr>point_x := 5, point_y := 7, state := LV_INDEV_STATE_PR\<rparr>, touched)"
  by (simp add: ft6x36_read_def lvgl_i2c_read_def esp_logx_def xQueueOverwrite_def Let_def
      decode_def swap_block_def invert_x_block_def invert_y_block_def example_defs)

lemma unqueued_is_init:
  "ft6x06_init (panel sw ix iy) (filled 0) probe False 0x38 power_on = Inr unqueued"
  by (simp add: ft6x06_init_def ft6x06_i2c_read8_def lvgl_i2c_read_def esp_logx_def
      xQueueCreate_def Let_def probe_def unqueued_def example_defs)

lemma stranded_is_init:
  "ft6x06_init (panel sw ix iy) (filled 0) probe False 0x38 touched = Inr stranded"
  by (simp add: ft6x06_init_def ft6x06_i2c_read8_def lvgl_i2c_read_def esp_logx_def
      xQueueCreate_def Let_def probe_def stranded_def example_defs)

subsection \<open>Calls before initialisation\<close>

text \<open>
  C1, as the code has it. While \<open>inited\<close> is false neither accessor reads the bus, and
  each only logs ``Init first!''. \<open>ft6x36_get_gesture_id\<close> returns 0. \<open>ft6x36_read\<close>
  returns false and hands the caller's structure back as it received it: it writes no
  sample into it, and the stored sample stays as it is.
\<close>

theorem uninitialised_calls:
  "\<not> inited s \<Longrightarrow>
     ft6x36_get_gesture_id cfg b a s = (0, s\<lparr>esp_log := esp_log s @ [E_init_first]\<rparr>) \<and>
     ft6x36_read cfg b a d s = Inr (False, d, s\<lparr>esp_log := esp_log s @ [E_init_first]\<rparr>) \<and>
     i2c_reads (s\<lparr>esp_log := esp_log s @ [E_init_first]\<rparr>) = i2c_reads s \<and>
     touch_inputs (s\<lparr>esp_log := esp_log s @ [E_init_first]\<rparr>) = touch_inputs s"
  by (simp add: ft6x36_get_gesture_id_def ft6x36_read_def esp_logx_def)

theorem uninitialised_calls_witness:
  "\<not> inited power_on \<and>
   ft6x36_get_gesture_id (panel False False False) (filled 0x5A) (delivers [3]) power_on =
     (0, power_on\<lparr>esp_log := [E_init_first]\<rparr>) \<and>
   ft6x36_read (panel False False False) (filled 0) (delivers [1, 0, 10, 0, 20])
       \<lparr>point_x = 0, point_y = 0, state = LV_INDEV_STATE_REL\<rparr> power_on =
     Inr (False, \<lparr>point_x = 0, point_y = 0, state = LV_INDEV_STATE_REL\<rparr>,
          power_on\<lparr>esp_log := [E_init_first]\<rparr>) \<and>
   i2c_reads (power_on\<lparr>esp_log := [E_init_first]\<rparr>) = []"
  using uninitialised_calls [of power_on "panel False False False" "filled 0x5A" "delivers [3]"
      "\<lparr>point_x = 0, point_y = 0, state = LV_INDEV_STATE_REL\<rparr>"]
    uninitialised_calls [of power_on "panel False False False" "filled 0" "delivers [1, 0, 10, 0, 20]"
      "\<lparr>point_x = 0, point_y = 0, state = LV_INDEV_STATE_REL\<rparr>"]
  by (simp add: power_on_def)

text \<open>
  C1 as the specification states it fails: before initialisation a structure that holds
  (5, 7, Pressed) comes back from \<open>ft6x36_read\<close> unchanged, which is not the Released
  sample at (-1, -1).
\<close>

theorem uninitialised_read_counterexample:
  "ft6x36_read (panel False False False) (filled 0) (delivers [1, 0, 10, 0, 20])
       \<lparr>point_x = 5, point_y = 7, state = LV_INDEV_STATE_PR\<rparr> power_on =
     Inr (False, \<lparr>point_x = 5, point_y = 7, state = LV_INDEV_STATE_PR\<rparr>,
          power_on\<lparr>esp_log := [E_init_first]\<rparr>) \<and>
   \<lparr>point_x = 5, point_y = 7, state = LV_INDEV_STATE_PR\<rparr> \<noteq>
     \<lparr>point_x = - 1, point_y = - 1, state = LV_INDEV_STATE_REL\<rparr>"
  by (simp add: ft6x36_read_def esp_logx_def power_on_def)

subsection \<open>Decoding the coordinates\<close>

lemma pressed_fields:
  "last_x (fresh_sample cfg buf) =
     (if invert_x cfg
      then hor_res cfg -
        (if swapxy cfg then decode cfg (buf 3) (buf 4) else decode cfg (buf 1) (buf 2))
      else (if swapxy cfg then decode cfg (buf 3) (buf 4) else decode cfg (buf 1) (buf 2)))"
  "last_y (fresh_sample cfg buf) =
     (if invert_y cfg
      then ver_res cfg -
        (if swapxy cfg then decode cfg (buf 1) (buf 2) else decode cfg (buf 3) (buf 4))
      else (if swapxy cfg then decode cfg (buf 1) (buf 2) else decode cfg (buf 3) (buf 4)))"
  by (simp_all add: fresh_sample_def swap_block_def invert_x_block_def invert_y_block_def Let_def)

lemma decode_example:
  "msb_mask cfg = 0x0F \<Longrightarrow> lsb_mask cfg = 0xFF \<Longrightarrow> decode cfg 0x03 0xFF = 0x3FF"
  by (simp add: decode_def)

text \<open>
  C2. A five-byte read that succeeds with the status byte 1 makes the driver store, and
  hand to the caller, the sample built from the four coordinate bytes: before the
  orientation blocks its X is \<open>decode\<close> of bytes 1 and 2 and its Y is \<open>decode\<close> of bytes
  3 and 4. Read as an unsigned number, the stored 16-bit value is exactly the C expression
  \<open>((hi & MSB_MASK) << 8) | (lo & LSB_MASK)\<close> on integers; when the high mask leaves bit
  7 clear, as the mask \<open>0x0F\<close> does, the \<open>int16_t\<close> value is that number too. With the
  masks \<open>0x0F\<close> and \<open>0xFF\<close> the bytes \<open>0x03\<close>, \<open>0xFF\<close> give \<open>0x3FF\<close>.
\<close>

theorem pressed_poll_decodes:
  "inited s \<Longrightarrow> queue_usable cfg s \<Longrightarrow> ans_err a = ESP_OK \<Longrightarrow>
   ans_bytes a = [1, xh, xl, yh, yl] \<Longrightarrow>
     (\<exists>s'. ft6x36_read cfg b a d s =
              Inr (False,
                   d\<lparr>point_x := last_x (touch_inputs s'), point_y := last_y (touch_inputs s'),
                    state := LV_INDEV_STATE_PR\<rparr>, s') \<and>
            touch_inputs s' =
              invert_y_block cfg (invert_x_block cfg (swap_block cfg
                \<lparr>last_x = decode cfg xh xl, last_y = decode cfg yh yl,
                 current_state = LV_INDEV_STATE_PR\<rparr>)) \<and>
            (\<not> swapxy cfg \<and> \<not> invert_x cfg \<and> \<not> invert_y cfg \<longrightarrow>
               last_x (touch_inputs s') = decode cfg xh xl \<and>
               last_y (touch_inputs s') = decode cfg yh yl)) \<and>
     uint (decode cfg xh xl) =
       push_bit 8 (uint (xh AND msb_mask cfg)) OR uint (xl AND lsb_mask cfg) \<and>
     uint (decode cfg yh yl) =
       push_bit 8 (uint (yh AND msb_mask cfg)) OR uint (yl AND lsb_mask cfg) \<and>
     (msb_mask cfg \<le> 0x7F \<longrightarrow>
        sint (decode cfg xh xl) = uint (decode cfg xh xl) \<and>
        sint (decode cfg yh yl) = uint (decode cfg yh yl)) \<and>
     (msb_mask cfg = 0x0F \<and> lsb_mask cfg = 0xFF \<longrightarrow> decode cfg 0x03 0xFF = 0x3FF)"
proof (intro conjI impI)
  assume i: "inited s" and q: "queue_usable cfg s" and e: "ans_err a = ESP_OK"
    and bs: "ans_bytes a = [1, xh, xl, yh, yl]"
  from bs have r: "received b a 0 = 1" "received b a (Suc 0) = xh" "received b a 2 = xl"
      "received b a 3 = yh" "received b a 4 = yl"
    using received_full [of a 1 xh xl yh yl b] by simp_all
  from e r have st: "single_touch b a" by (simp add: single_touch_def)
  have fs: "fresh_sample cfg (received b a) =
      invert_y_block cfg (invert_x_block cfg (swap_block cfg
        \<lparr>last_x = decode cfg xh xl, last_y = decode cfg yh yl,
         current_state = LV_INDEV_STATE_PR\<rparr>))"
    using r by (simp add: fresh_sample_def)
  show "\<exists>s'. ft6x36_read cfg b a d s =
              Inr (False,
                   d\<lparr>point_x := last_x (touch_inputs s'), point_y := last_y (touch_inputs s'),
                    state := LV_INDEV_STATE_PR\<rparr>, s') \<and>
            touch_inputs s' =
              invert_y_block cfg (invert_x_block cfg (swap_block cfg
                \<lparr>last_x = decode cfg xh xl, last_y = decode cfg yh yl,
                 current_state = LV_INDEV_STATE_PR\<rparr>)) \<and>
            (\<not> swapxy cfg \<and> \<not> invert_x cfg \<and> \<not> invert_y cfg \<longrightarrow>
               last_x (touch_inputs s') = decode cfg xh xl \<and>
               last_y (touch_inputs s') = decode cfg yh yl)"
    using q r
    by (simp add: ft6x36_read_pressed [OF i st] queue_usable_def fs [symmetric] pressed_fields)
qed (simp_all add: decode_uint decode_sint decode_example)

theorem pressed_poll_decodes_witness:
  "inited booted \<and> queue_usable (panel False False False) booted \<and>
   ans_err (delivers [1, 0x03, 0xFF, 0, 20]) = ESP_OK \<and>
   ans_bytes (delivers [1, 0x03, 0xFF, 0, 20]) = [1, 0x03, 0xFF, 0, 20] \<and>
   ft6x36_read (panel False False False) (filled 0) (delivers [1, 0x03, 0xFF, 0, 20])
       \<lparr>point_x = 0, point_y = 0, state = LV_INDEV_STATE_REL\<rparr> booted =
     Inr (False, \<lparr>point_x = 0x3FF, point_y = 20, state = LV_INDEV_STATE_PR\<rparr>,
          booted\<lparr>touch_inputs :=
                   \<lparr>last_x = 0x3FF, last_y = 20, current_state = LV_INDEV_STATE_PR\<rparr>,
                 ft6x36_touch_queue_handle :=
                   Some [\<lparr>last_x = 0x3FF, last_y = 20, current_state = LV_INDEV_STATE_PR\<rparr>],
                 i2c_reads := i2c_reads booted @ [(0, 0x38, 0x02, 5)],
                 esp_log := esp_log booted @ [V_x_y 0x3FF 20],
                 queue_puts :=
                   [sentinel,
                    \<lparr>last_x = 0x3FF, last_y = 20, current_state = LV_INDEV_STATE_PR\<rparr>]\<rparr>) \<and>
   sint (decode (panel False False False) 0x03 0xFF) = 0x3FF"
  using pressed_poll_decodes [of booted "panel False False False"
      "delivers [1, 0x03, 0xFF, 0, 20]" "0x03" "0xFF" 0 20 "filled 0"
      "\<lparr>point_x = 0, point_y = 0, state = LV_INDEV_STATE_REL\<rparr>"]
  by (simp add: ft6x36_read_def lvgl_i2c_read_def esp_logx_def xQueueOverwrite_def Let_def
      decode_def swap_block_def invert_x_block_def invert_y_block_def queue_usable_def
      example_defs)

subsection \<open>The order of the orientation blocks\<close>

text \<open>
  C3. The blocks act in the order swap, invert X, invert Y, each on the sample the block
  before it left: the stored X is the raw Y when the axes are swapped, and the horizontal
  resolution minus that when X is inverted as well; likewise for Y. With swap and X
  inversion on, Y inversion off, a raw (10, 20) and a width of 320 the sample stored and
  returned is (300, 10).
\<close>

theorem orientation_order:
  "inited s \<Longrightarrow> queue_usable cfg s \<Longrightarrow> ans_err a = ESP_OK \<Longrightarrow>
   ans_bytes a = [1, xh, xl, yh, yl] \<Longrightarrow>
     (\<exists>s'. ft6x36_read cfg b a d s =
              Inr (False,
                   d\<lparr>point_x := last_x (touch_inputs s'), point_y := last_y (touch_inputs s'),
                    state := LV_INDEV_STATE_PR\<rparr>, s') \<and>
            last_x (touch_inputs s') =
              (if invert_x cfg
               then hor_res cfg - (if swapxy cfg then decode cfg yh yl else decode cfg xh xl)
               else (if swapxy cfg then decode cfg yh yl else decode cfg xh xl)) \<and>
            last_y (touch_inputs s') =
              (if invert_y cfg
               then ver_res cfg - (if swapxy cfg then decode cfg xh xl else decode cfg yh yl)
               else (if swapxy cfg then decode cfg xh xl else decode cfg yh yl))) \<and>
     (swapxy cfg \<and> invert_x cfg \<and> \<not> invert_y cfg \<and> hor_res cfg = 320 \<and>
      decode cfg xh xl = 10 \<and> decode cfg yh yl = 20 \<longrightarrow>
        (\<exists>s'. ft6x36_read cfg b a d s =
                 Inr (False, d\<lparr>point_x := 300, point_y := 10, state := LV_INDEV_STATE_PR\<rparr>, s') \<and>
               last_x (touch_inputs s') = 300 \<and> last_y (touch_inputs s') = 10))"
proof -
  assume i: "inited s" and q: "queue_usable cfg s" and e: "ans_err a = ESP_OK"
    and bs: "ans_bytes a = [1, xh, xl, yh, yl]"
  from bs have r: "received b a 0 = 1" "received b a (Suc 0) = xh" "received b a 2 = xl"
      "received b a 3 = yh" "received b a 4 = yl"
    using received_full [of a 1 xh xl yh yl b] by simp_all
  from e r have st: "single_touch b a" by (simp add: single_touch_def)
  from q have nf: "\<not> (coordinates_queue cfg \<and> ft6x36_touch_queue_handle s = None)"
    by (simp add: queue_usable_def)
  show ?thesis
    unfolding ft6x36_read_pressed [OF i st] using nf r
    by (simp add: pressed_fields)
qed

theorem orientation_order_witness:
  "inited booted \<and> queue_usable (panel True True False) booted \<and>
   ans_err (delivers [1, 0, 10, 0, 20]) = ESP_OK \<and>
   ans_bytes (delivers [1, 0, 10, 0, 20]) = [1, 0, 10, 0, 20] \<and>
   swapxy (panel True True False) \<and> invert_x (panel True True False) \<and>
   \<not> invert_y (panel True True False) \<and> hor_res (panel True True False) = 320 \<and>
   ver_res (panel True True False) = 240 \<and>
   decode (panel True True False) 0 10 = 10 \<and> decode (panel True True False) 0 20 = 20 \<and>
   ft6x36_read (panel True True False) (filled 0) (delivers [1, 0, 10, 0, 20])
       \<lparr>point_x = 0, point_y = 0, state = LV_INDEV_STATE_REL\<rparr> booted =
     Inr (False, \<lparr>point_x = 300, point_y = 10, state = LV_INDEV_STATE_PR\<rparr>,
          booted\<lparr>touch_inputs :=
                   \<lparr>last_x = 300, last_y = 10, current_state = LV_INDEV_STATE_PR\<rparr>,
                 ft6x36_touch_queue_handle :=
                   Some [\<lparr>last_x = 300, last_y = 10, current_state = LV_INDEV_STATE_PR\<rparr>],
                 i2c_reads := i2c_reads booted @ [(0, 0x38, 0x02, 5)],
                 esp_log := esp_log booted @ [V_x_y 300 10],
                 queue_puts :=
                   [sentinel,
                    \<lparr>last_x = 300, last_y = 10, current_state = LV_INDEV_STATE_PR\<rparr>]\<rparr>)"
  using orientation_order [of booted "panel True True False"
      "delivers [1, 0, 10, 0, 20]" 0 10 0 20 "filled 0"
      "\<lparr>point_x = 0, point_y = 0, state = LV_INDEV_STATE_REL\<rparr>"]
  by (simp add: ft6x36_read_def lvgl_i2c_read_def esp_logx_def xQueueOverwrite_def Let_def
      decode_def swap_block_def invert_x_block_def invert_y_block_def queue_usable_def
      example_defs)

subsection \<open>Polls that are not a single touch\<close>

text \<open>
  C4, as the code has it. In an initialised driver every poll that is not a single touch
  (the read failed, or the status byte is not 1, whether 0 or more than 1) returns
  false, leaves \<open>last_x\<close> and \<open>last_y\<close> as they were and gives the caller those
  coordinates with the Released state; any two such polls from the same state return the
  same and leave the same driver behind, the log apart, which alone tells a bus error
  from an absent touch. The one exception is a state that is not Released while the queue
  is compiled in and its handle is \<open>NULL\<close>: there every such poll reaches
  \<open>xQueueOverwrite\<close> and does not return.
\<close>

theorem no_single_touch_is_release:
  "inited s \<Longrightarrow> \<not> single_touch b1 a1 \<Longrightarrow> \<not> single_touch b2 a2 \<Longrightarrow>
     (if current_state (touch_inputs s) \<noteq> LV_INDEV_STATE_REL \<and> coordinates_queue cfg \<and>
         ft6x36_touch_queue_handle s = None
      then ft6x36_read cfg b1 a1 d s = Inl Null_queue_handle \<and>
           ft6x36_read cfg b2 a2 d s = Inl Null_queue_handle
      else
        (\<exists>s1 s2.
           ft6x36_read cfg b1 a1 d s =
             Inr (False,
                  d\<lparr>point_x := last_x (touch_inputs s), point_y := last_y (touch_inputs s),
                   state := LV_INDEV_STATE_REL\<rparr>, s1) \<and>
           ft6x36_read cfg b2 a2 d s =
             Inr (False,
                  d\<lparr>point_x := last_x (touch_inputs s), point_y := last_y (touch_inputs s),
                   state := LV_INDEV_STATE_REL\<rparr>, s2) \<and>
           last_x (touch_inputs s1) = last_x (touch_inputs s) \<and>
           last_y (touch_inputs s1) = last_y (touch_inputs s) \<and>
           current_state (touch_inputs s1) = LV_INDEV_STATE_REL \<and>
           s2\<lparr>esp_log := esp_log s1\<rparr> = s1))"
proof -
  assume i: "inited s" and n1: "\<not> single_touch b1 a1" and n2: "\<not> single_touch b2 a2"
  show ?thesis
  proof (cases "current_state (touch_inputs s) \<noteq> LV_INDEV_STATE_REL \<and> coordinates_queue cfg \<and>
         ft6x36_touch_queue_handle s = None")
    case True
    then show ?thesis
      unfolding ft6x36_read_released [OF i n1] ft6x36_read_released [OF i n2]
      by simp
  next
    case False
    then show ?thesis
      unfolding ft6x36_read_released [OF i n1] ft6x36_read_released [OF i n2]
      by simp
  qed
qed

theorem no_single_touch_is_release_witness:
  "inited touched \<and> inited unqueued \<and>
   current_state (touch_inputs touched) = LV_INDEV_STATE_PR \<and>
   ft6x36_touch_queue_handle touched \<noteq> None \<and>
   current_state (touch_inputs unqueued) = LV_INDEV_STATE_REL \<and>
   ft6x36_touch_queue_handle unqueued = None \<and>
   ft6x36_read (panel False False False) (filled 1) fails
       \<lparr>point_x = 0, point_y = 0, state = LV_INDEV_STATE_PR\<rparr> unqueued =
     Inr (False, \<lparr>point_x = - 1, point_y = - 1, state = LV_INDEV_STATE_REL\<rparr>,
       unqueued\<lparr>i2c_reads := i2c_reads unqueued @ [(0, 0x38, 0x02, 5)],
         esp_log := esp_log unqueued @ [E_error_talking_to_touch_ic ESP_FAIL]\<rparr>) \<and>
   ft6x36_read (panel False False False) (filled 1) (delivers [2, 0, 9, 0, 9])
       \<lparr>point_x = 0, point_y = 0, state = LV_INDEV_STATE_PR\<rparr> unqueued =
     Inr (False, \<lparr>point_x = - 1, point_y = - 1, state = LV_INDEV_STATE_REL\<rparr>,
       unqueued\<lparr>i2c_reads := i2c_reads unqueued @ [(0, 0x38, 0x02, 5)]\<rparr>) \<and>
   \<not> single_touch (filled 1) fails \<and>
   \<not> single_touch (filled 1) (delivers [0, 0, 5, 0, 7]) \<and>
   \<not> single_touch (filled 1) (delivers [2, 0, 9, 0, 9]) \<and>
   ft6x36_read (panel False False False) (filled 1) fails
       \<lparr>point_x = 0, point_y = 0, state = LV_INDEV_STATE_PR\<rparr> touched =
     Inr (False, \<lparr>point_x = 5, point_y = 7, state = LV_INDEV_STATE_REL\<rparr>,
       touched\<lparr>touch_inputs := \<lparr>last_x = 5, last_y = 7, current_state = LV_INDEV_STATE_REL\<rparr>,
         ft6x36_touch_queue_handle :=
           Some [\<lparr>last_x = 5, last_y = 7, current_state = LV_INDEV_STATE_REL\<rparr>],
         i2c_reads := i2c_reads touched @ [(0, 0x38, 0x02, 5)],
         esp_log := esp_log touched @ [E_error_talking_to_touch_ic ESP_FAIL],
         queue_puts := queue_puts touched @
           [\<lparr>last_x = 5, last_y = 7, current_state = LV_INDEV_STATE_REL\<rparr>]\<rparr>) \<and>
   ft6x36_read (panel False False False) (filled 1) (delivers [0, 0, 5, 0, 7])
       \<lparr>point_x = 0, point_y = 0, state = LV_INDEV_STATE_PR\<rparr> touched =
     Inr (False, \<lparr>point_x = 5, point_y = 7, state = LV_INDEV_STATE_REL\<rparr>,
       touched\<lparr>touch_inputs := \<lparr>last_x = 5, last_y = 7, current_state = LV_INDEV_STATE_REL\<rparr>,
         ft6x36_touch_queue_handle :=
           Some [\<lparr>last_x = 5, last_y = 7, current_state = LV_INDEV_STATE_REL\<rparr>],
         i2c_reads := i2c_reads touched @ [(0, 0x38, 0x02, 5)],
         queue_puts := queue_puts touched @
           [\<lparr>last_x = 5, last_y = 7, current_state = LV_INDEV_STATE_REL\<rparr>]\<rparr>) \<and>
   ft6x36_read (panel False False False) (filled 1) (delivers [2, 0, 9, 0, 9])
       \<lparr>point_x = 0, point_y = 0, state = LV_INDEV_STATE_PR\<rparr> touched =
     Inr (False, \<lparr>point_x = 5, point_y = 7, state = LV_INDEV_STATE_REL\<rparr>,
       touched\<lparr>touch_inputs := \<lparr>last_x = 5, last_y = 7, current_state = LV_INDEV_STATE_REL\<rparr>,
         ft6x36_touch_queue_handle :=
           Some [\<lparr>last_x = 5, last_y = 7, current_state = LV_INDEV_STATE_REL\<rparr>],
         i2c_reads := i2c_reads touched @ [(0, 0x38, 0x02, 5)],
         queue_puts := queue_puts touched @
           [\<lparr>last_x = 5, last_y = 7, current_state = LV_INDEV_STATE_REL\<rparr>]\<rparr>)"
  using no_single_touch_is_release [where s = touched and cfg = "panel False False False"
      and ?b1.0 = "filled 1" and ?a1.0 = fails and ?b2.0 = "filled 1" and ?a2.0 = "delivers [0, 0, 5, 0, 7]"
      and d = "\<lparr>point_x = 0, point_y = 0, state = LV_INDEV_STATE_PR\<rparr>"]
    no_single_touch_is_release [where s = touched and cfg = "panel False False False"
      and ?b1.0 = "filled 1" and ?a1.0 = fails and ?b2.0 = "filled 1" and ?a2.0 = "delivers [2, 0, 9, 0, 9]"
      and d = "\<lparr>point_x = 0, point_y = 0, state = LV_INDEV_STATE_PR\<rparr>"]
    no_single_touch_is_release [where s = unqueued and cfg = "panel False False False"
      and ?b1.0 = "filled 1" and ?a1.0 = fails and ?b2.0 = "filled 1" and ?a2.0 = "delivers [2, 0, 9, 0, 9]"
      and d = "\<lparr>point_x = 0, point_y = 0, state = LV_INDEV_STATE_PR\<rparr>"]
  by (simp add: ft6x36_read_def lvgl_i2c_read_def esp_logx_def xQueueOverwrite_def Let_def
      single_touch_def received_def unqueued_def example_defs)

text \<open>
  C4 as the specification states it fails in one initialised state: after an
  initialisation and a poll that stored (5, 7, Pressed), a second \<open>ft6x06_init\<close> whose
  \<open>xQueueCreate\<close> fails leaves \<open>inited\<close> set, the state Pressed and the handle
  \<open>NULL\<close>; the next poll that meets no touch stops in \<open>xQueueOverwrite\<close> instead of
  returning the sticky sample.
\<close>

theorem pressed_null_queue_counterexample:
  "ft6x06_init (panel False False False) (filled 0) probe True 0x38 power_on = Inr booted \<and>
   ft6x36_read (panel False False False) (filled 0) (delivers [1, 0, 5, 0, 7])
       \<lparr>point_x = 0, point_y = 0, state = LV_INDEV_STATE_REL\<rparr> booted =
     Inr (False, \<lparr>point_x = 5, point_y = 7, state = LV_INDEV_STATE_PR\<rparr>, touched) \<and>
   ft6x06_init (panel False False False) (filled 0) probe False 0x38 touched = Inr stranded \<and>
   inited stranded \<and>
   \<not> single_touch (filled 0) (delivers [0, 0, 0, 0, 0]) \<and>
   ft6x36_read (panel False False False) (filled 0) (delivers [0, 0, 0, 0, 0])
       \<lparr>point_x = 0, point_y = 0, state = LV_INDEV_STATE_REL\<rparr> stranded =
     Inl Null_queue_handle"
proof -
  have "inited stranded"
    by (simp add: stranded_def example_defs)
  moreover have "\<not> single_touch (filled 0) (delivers [0, 0, 0, 0, 0])"
    by (simp add: single_touch_def received_def example_defs)
  moreover have "ft6x36_read (panel False False False) (filled 0) (delivers [0, 0, 0, 0, 0])
       \<lparr>point_x = 0, point_y = 0, state = LV_INDEV_STATE_REL\<rparr> stranded =
     Inl Null_queue_handle"
    by (simp add: ft6x36_read_def lvgl_i2c_read_def esp_logx_def xQueueOverwrite_def Let_def
        stranded_def example_defs)
  ultimately show ?thesis
    using booted_is_init [of False False False]
      touched_is_read [of "\<lparr>point_x = 0, point_y = 0, state = LV_INDEV_STATE_REL\<rparr>"]
      stranded_is_init [of False False False]
    by simp
qed

text \<open>
  C8. In the Released state, two polls in succession that meet the same answer, not a
  single touch, give the caller the same sample, write nothing to the queue, and leave
  every static of the driver as it was: only the record of bus reads and the log grow.
\<close>

theorem released_poll_idempotent:
  "inited s \<Longrightarrow> current_state (touch_inputs s) = LV_INDEV_STATE_REL \<Longrightarrow>
   \<not> single_touch b1 a \<Longrightarrow> \<not> single_touch b2 a \<Longrightarrow>
     \<exists>s1 s2.
       ft6x36_read cfg b1 a d1 s =
         Inr (False,
              d1\<lparr>point_x := last_x (touch_inputs s), point_y := last_y (touch_inputs s),
               state := LV_INDEV_STATE_REL\<rparr>, s1) \<and>
       ft6x36_read cfg b2 a d2 s1 =
         Inr (False,
              d2\<lparr>point_x := last_x (touch_inputs s), point_y := last_y (touch_inputs s),
               state := LV_INDEV_STATE_REL\<rparr>, s2) \<and>
       s1\<lparr>i2c_reads := i2c_reads s, esp_log := esp_log s\<rparr> = s \<and>
       s2\<lparr>i2c_reads := i2c_reads s, esp_log := esp_log s\<rparr> = s \<and>
       queue_puts s1 = queue_puts s \<and> queue_puts s2 = queue_puts s1"
proof -
  assume i: "inited s" and r: "current_state (touch_inputs s) = LV_INDEV_STATE_REL"
    and n1: "\<not> single_touch b1 a" and n2: "\<not> single_touch b2 a"
  from r have t: "(touch_inputs s)\<lparr>current_state := LV_INDEV_STATE_REL\<rparr> = touch_inputs s"
    by simp
  define s1 where "s1 = s\<lparr>i2c_reads := i2c_reads s @
           [(i2c_touch_port cfg, current_dev_addr s, td_stat_reg cfg, 5)],
         esp_log := esp_log s @
           (if ans_err a \<noteq> ESP_OK then [E_error_talking_to_touch_ic (ans_err a)] else [])\<rparr>"
  have e1: "ft6x36_read cfg b1 a d1 s =
      Inr (False,
           d1\<lparr>point_x := last_x (touch_inputs s), point_y := last_y (touch_inputs s),
            state := LV_INDEV_STATE_REL\<rparr>, s1)"
    unfolding ft6x36_read_released [OF i n1] s1_def using r by (simp add: t)
  have i1: "inited s1" and r1: "current_state (touch_inputs s1) = LV_INDEV_STATE_REL"
    and t1: "touch_inputs s1 = touch_inputs s"
    using i r by (simp_all add: s1_def)
  define s2 where "s2 = s1\<lparr>i2c_reads := i2c_reads s1 @
           [(i2c_touch_port cfg, current_dev_addr s1, td_stat_reg cfg, 5)],
         esp_log := esp_log s1 @
           (if ans_err a \<noteq> ESP_OK then [E_error_talking_to_touch_ic (ans_err a)] else [])\<rparr>"
  have e2: "ft6x36_read cfg b2 a d2 s1 =
      Inr (False,
           d2\<lparr>point_x := last_x (touch_inputs s), point_y := last_y (touch_inputs s),
            state := LV_INDEV_STATE_REL\<rparr>, s2)"
    unfolding ft6x36_read_released [OF i1 n2] s2_def using r1 t1 t by simp
  have "s1\<lparr>i2c_reads := i2c_reads s, esp_log := esp_log s\<rparr> = s"
    by (simp add: s1_def)
  moreover have "s2\<lparr>i2c_reads := i2c_reads s, esp_log := esp_log s\<rparr> = s"
    by (simp add: s2_def s1_def)
  moreover have "queue_puts s1 = queue_puts s" "queue_puts s2 = queue_puts s1"
    by (simp_all add: s2_def s1_def)
  ultimately show ?thesis using e1 e2 by blast
qed

theorem released_poll_idempotent_witness:
  "inited booted \<and> current_state (touch_inputs booted) = LV_INDEV_STATE_REL \<and>
   \<not> single_touch (filled 0) (delivers [0, 0, 0, 0, 0]) \<and>
   ft6x36_read (panel False False False) (filled 0) (delivers [0, 0, 0, 0, 0])
       \<lparr>point_x = 0, point_y = 0, state = LV_INDEV_STATE_PR\<rparr> booted =
     Inr (False, \<lparr>point_x = - 1, point_y = - 1, state = LV_INDEV_STATE_REL\<rparr>,
          booted\<lparr>i2c_reads := i2c_reads booted @ [(0, 0x38, 0x02, 5)]\<rparr>) \<and>
   ft6x36_read (panel False False False) (filled 0) (delivers [0, 0, 0, 0, 0])
       \<lparr>point_x = 0, point_y = 0, state = LV_INDEV_STATE_PR\<rparr>
       (booted\<lparr>i2c_reads := i2c_reads booted @ [(0, 0x38, 0x02, 5)]\<rparr>) =
     Inr (False, \<lparr>point_x = - 1, point_y = - 1, state = LV_INDEV_STATE_REL\<rparr>,
          booted\<lparr>i2c_reads := i2c_reads booted @ [(0, 0x38, 0x02, 5), (0, 0x38, 0x02, 5)]\<rparr>) \<and>
   queue_puts (booted\<lparr>i2c_reads :=
       i2c_reads booted @ [(0, 0x38, 0x02, 5), (0, 0x38, 0x02, 5)]\<rparr>) = queue_puts booted"
  using released_poll_idempotent [of booted "filled 0" "delivers [0, 0, 0, 0, 0]" "filled 0"
      "panel False False False" "\<lparr>point_x = 0, point_y = 0, state = LV_INDEV_STATE_PR\<rparr>"
      "\<lparr>point_x = 0, point_y = 0, state = LV_INDEV_STATE_PR\<rparr>"]
  by (simp add: ft6x36_read_def lvgl_i2c_read_def esp_logx_def xQueueOverwrite_def Let_def
      single_touch_def received_def example_defs)

subsection \<open>What the caller receives\<close>

text \<open>
  C10. Whenever \<open>ft6x36_read\<close> returns in an initialised driver, in either branch, the
  caller's structure holds the stored sample: \<open>point.x\<close> is \<open>last_x\<close>, \<open>point.y\<close> is
  \<open>last_y\<close> and \<open>state\<close> is \<open>current_state\<close>. It does return when the queue, where
  compiled in, exists.
\<close>

theorem output_mirrors_sample:
  "inited s \<Longrightarrow>
     (queue_usable cfg s \<longrightarrow> (\<exists>r d' s'. ft6x36_read cfg b a d s = Inr (r, d', s'))) \<and>
     (\<forall>r d' s'. ft6x36_read cfg b a d s = Inr (r, d', s') \<longrightarrow>
        point_x d' = last_x (touch_inputs s') \<and>
        point_y d' = last_y (touch_inputs s') \<and>
        state d' = current_state (touch_inputs s'))"
proof (cases "single_touch b a")
  case True
  assume i: "inited s"
  show ?thesis
    unfolding ft6x36_read_pressed [OF i True]
    by (auto simp add: queue_usable_def fresh_sample_state)
next
  case False
  assume i: "inited s"
  show ?thesis
    unfolding ft6x36_read_released [OF i False]
    by (auto simp add: queue_usable_def)
qed

theorem output_mirrors_sample_witness:
  "inited booted \<and> queue_usable (panel True True False) booted \<and>
   ft6x36_read (panel True True False) (filled 0) (delivers [1, 0, 10, 0, 20])
       \<lparr>point_x = 0, point_y = 0, state = LV_INDEV_STATE_REL\<rparr> booted =
     Inr (False, \<lparr>point_x = 300, point_y = 10, state = LV_INDEV_STATE_PR\<rparr>,
          booted\<lparr>touch_inputs :=
                   \<lparr>last_x = 300, last_y = 10, current_state = LV_INDEV_STATE_PR\<rparr>,
                 ft6x36_touch_queue_handle :=
                   Some [\<lparr>last_x = 300, last_y = 10, current_state = LV_INDEV_STATE_PR\<rparr>],
                 i2c_reads := i2c_reads booted @ [(0, 0x38, 0x02, 5)],
                 esp_log := esp_log booted @ [V_x_y 300 10],
                 queue_puts :=
                   [sentinel,
                    \<lparr>last_x = 300, last_y = 10, current_state = LV_INDEV_STATE_PR\<rparr>]\<rparr>) \<and>
   ft6x36_read (panel True True False) (filled 0) fails
       \<lparr>point_x = 0, point_y = 0, state = LV_INDEV_STATE_PR\<rparr> booted =
     Inr (False, \<lparr>point_x = - 1, point_y = - 1, state = LV_INDEV_STATE_REL\<rparr>,
          booted\<lparr>i2c_reads := i2c_reads booted @ [(0, 0x38, 0x02, 5)],
                 esp_log := esp_log booted @ [E_error_talking_to_touch_ic ESP_FAIL]\<rparr>)"
proof -
  have i: "inited booted"
    by (simp add: booted_def)
  have c1: "ft6x36_read (panel True True False) (filled 0) (delivers [1, 0, 10, 0, 20])
       \<lparr>point_x = 0, point_y = 0, state = LV_INDEV_STATE_REL\<rparr> booted =
     Inr (False, \<lparr>point_x = 300, point_y = 10, state = LV_INDEV_STATE_PR\<rparr>,
          booted\<lparr>touch_inputs :=
                   \<lparr>last_x = 300, last_y = 10, current_state = LV_INDEV_STATE_PR\<rparr>,
                 ft6x36_touch_queue_handle :=
                   Some [\<lparr>last_x = 300, last_y = 10, current_state = LV_INDEV_STATE_PR\<rparr>],
                 i2c_reads := i2c_reads booted @ [(0, 0x38, 0x02, 5)],
                 esp_log := esp_log booted @ [V_x_y 300 10],
                 queue_puts :=
                   [sentinel,
                    \<lparr>last_x = 300, last_y = 10, current_state = LV_INDEV_STATE_PR\<rparr>]\<rparr>)"
    by (simp add: ft6x36_read_def lvgl_i2c_read_def esp_logx_def xQueueOverwrite_def Let_def
        decode_def swap_block_def invert_x_block_def invert_y_block_def example_defs)
  have c2: "ft6x36_read (panel True True False) (filled 0) fails
       \<lparr>point_x = 0, point_y = 0, state = LV_INDEV_STATE_PR\<rparr> booted =
     Inr (False, \<lparr>point_x = - 1, point_y = - 1, state = LV_INDEV_STATE_REL\<rparr>,
          booted\<lparr>i2c_reads := i2c_reads booted @ [(0, 0x38, 0x02, 5)],
                 esp_log := esp_log booted @ [E_error_talking_to_touch_ic ESP_FAIL]\<rparr>)"
    by (simp add: ft6x36_read_def lvgl_i2c_read_def esp_logx_def Let_def example_defs)
  have q: "queue_usable (panel True True False) booted"
    by (simp add: queue_usable_def booted_def)
  from output_mirrors_sample [OF i, of "panel True True False" "filled 0"
      "delivers [1, 0, 10, 0, 20]" "\<lparr>point_x = 0, point_y = 0, state = LV_INDEV_STATE_REL\<rparr>"]
    q c1
  have r1: "\<exists>r d' s'. ft6x36_read (panel True True False) (filled 0) (delivers [1, 0, 10, 0, 20])
       \<lparr>point_x = 0, point_y = 0, state = LV_INDEV_STATE_REL\<rparr> booted = Inr (r, d', s')"
    by blast
  from i q c1 c2 r1 show ?thesis by simp
qed

subsection \<open>The gesture identifier\<close>

lemma gesture_id_is_buffer:
  "inited s \<Longrightarrow>
     fst (ft6x36_get_gesture_id cfg b a s) = (if ans_bytes a = [] then b 0 else hd (ans_bytes a))"
  by (cases "ans_bytes a")
    (simp_all add: ft6x36_get_gesture_id_def ft6x06_i2c_read8_def lvgl_i2c_read_def Let_def)

text \<open>
  C7 does not hold of the code. After a failed read the function returns \<open>data_buf\<close>
  like after a successful one, and nothing has set that byte: here the bus fails without
  storing anything, the stale byte of the local is \<open>0x5A\<close>, and \<open>0x5A\<close> is returned
  where the function's comment promises \<open>0x00\<close>.
\<close>

theorem gesture_id_after_failed_read:
  "ft6x36_get_gesture_id (panel False False False) (filled 0x5A) fails booted =
     (0x5A, booted\<lparr>i2c_reads := i2c_reads booted @ [(0, 0x38, 0x01, 1)],
                   esp_log := esp_log booted @ [E_error_reading_from_device 1]\<rparr>)"
  by (simp add: ft6x36_get_gesture_id_def ft6x06_i2c_read8_def lvgl_i2c_read_def esp_logx_def
      Let_def example_defs)

subsection \<open>What reaches the queue over a run of polls\<close>

lemma polls_released_quiet:
  "inited s \<Longrightarrow> current_state (touch_inputs s) = LV_INDEV_STATE_REL \<Longrightarrow>
   \<forall>t \<in> set ticks. \<not> single_touch (fst t) (fst (snd t)) \<Longrightarrow>
     \<exists>s'. polls cfg ticks s = Inr s' \<and> queue_puts s' = queue_puts s \<and>
          ft6x36_touch_queue_handle s' = ft6x36_touch_queue_handle s \<and>
          touch_inputs s' = touch_inputs s \<and> inited s'"
proof (induction ticks arbitrary: s)
  case Nil
  then show ?case by simp
next
  case (Cons t ticks)
  obtain b a d where t: "t = (b, a, d)" by (cases t) auto
  from Cons.prems(3) t have n: "\<not> single_touch b a" by simp
  from Cons.prems(2)
  have k: "(touch_inputs s)\<lparr>current_state := LV_INDEV_STATE_REL\<rparr> = touch_inputs s"
    by simp
  define s1 where "s1 = s\<lparr>i2c_reads := i2c_reads s @
           [(i2c_touch_port cfg, current_dev_addr s, td_stat_reg cfg, 5)],
         esp_log := esp_log s @
           (if ans_err a \<noteq> ESP_OK then [E_error_talking_to_touch_ic (ans_err a)] else [])\<rparr>"
  have e: "ft6x36_read cfg b a d s =
      Inr (False,
           d\<lparr>point_x := last_x (touch_inputs s), point_y := last_y (touch_inputs s),
            state := LV_INDEV_STATE_REL\<rparr>, s1)"
    unfolding ft6x36_read_released [OF Cons.prems(1) n] s1_def
    using Cons.prems(2) by (simp add: k)
  have p: "inited s1" "current_state (touch_inputs s1) = LV_INDEV_STATE_REL"
    using Cons.prems(1,2) by (simp_all add: s1_def)
  from Cons.prems(3) have r: "\<forall>t \<in> set ticks. \<not> single_touch (fst t) (fst (snd t))"
    by simp
  from Cons.IH [OF p r] obtain s' where
    "polls cfg ticks s1 = Inr s'" "queue_puts s' = queue_puts s1"
    "ft6x36_touch_queue_handle s' = ft6x36_touch_queue_handle s1"
    "touch_inputs s' = touch_inputs s1" "inited s'"
    by blast
  then show ?case
    by (simp add: t e s1_def)
qed

text \<open>
  C5. With the queue compiled in and created, and the stored state Pressed, the first poll
  that is not a single touch puts exactly one item into the queue, the stored sample with
  the Released state, and however many polls of that kind follow, none of them puts
  anything: after the whole run the queue has received that one item and still holds it.
\<close>

theorem release_published_once:
  "inited s \<Longrightarrow> coordinates_queue cfg \<Longrightarrow> ft6x36_touch_queue_handle s \<noteq> None \<Longrightarrow>
   current_state (touch_inputs s) = LV_INDEV_STATE_PR \<Longrightarrow> \<not> single_touch b a \<Longrightarrow>
   \<forall>t \<in> set ticks. \<not> single_touch (fst t) (fst (snd t)) \<Longrightarrow>
     \<exists>s1 s'.
       ft6x36_read cfg b a d s =
         Inr (False,
              d\<lparr>point_x := last_x (touch_inputs s), point_y := last_y (touch_inputs s),
               state := LV_INDEV_STATE_REL\<rparr>, s1) \<and>
       queue_puts s1 =
         queue_puts s @ [(touch_inputs s)\<lparr>current_state := LV_INDEV_STATE_REL\<rparr>] \<and>
       polls cfg ticks s1 = Inr s' \<and>
       polls cfg ((b, a, d) # ticks) s = Inr s' \<and>
       queue_puts s' = queue_puts s1 \<and>
       ft6x36_touch_queue_handle s' =
         Some [(touch_inputs s)\<lparr>current_state := LV_INDEV_STATE_REL\<rparr>]"
proof -
  assume i: "inited s" and c: "coordinates_queue cfg"
    and h: "ft6x36_touch_queue_handle s \<noteq> None"
    and pr: "current_state (touch_inputs s) = LV_INDEV_STATE_PR"
    and n: "\<not> single_touch b a"
    and r: "\<forall>t \<in> set ticks. \<not> single_touch (fst t) (fst (snd t))"
  define s1 where "s1 = s\<lparr>touch_inputs := (touch_inputs s)\<lparr>current_state := LV_INDEV_STATE_REL\<rparr>,
         ft6x36_touch_queue_handle :=
           Some [(touch_inputs s)\<lparr>current_state := LV_INDEV_STATE_REL\<rparr>],
         i2c_reads := i2c_reads s @
           [(i2c_touch_port cfg, current_dev_addr s, td_stat_reg cfg, 5)],
         esp_log := esp_log s @
           (if ans_err a \<noteq> ESP_OK then [E_error_talking_to_touch_ic (ans_err a)] else []),
         queue_puts := queue_puts s @
           [(touch_inputs s)\<lparr>current_state := LV_INDEV_STATE_REL\<rparr>]\<rparr>"
  have e: "ft6x36_read cfg b a d s =
      Inr (False,
           d\<lparr>point_x := last_x (touch_inputs s), point_y := last_y (touch_inputs s),
            state := LV_INDEV_STATE_REL\<rparr>, s1)"
    unfolding ft6x36_read_released [OF i n] s1_def using c h pr by simp
  have p: "inited s1" "current_state (touch_inputs s1) = LV_INDEV_STATE_REL"
    using i by (simp_all add: s1_def)
  from polls_released_quiet [OF p r, of cfg] obtain s' where
    q: "polls cfg ticks s1 = Inr s'" "queue_puts s' = queue_puts s1"
      "ft6x36_touch_queue_handle s' = ft6x36_touch_queue_handle s1"
    by blast
  have "queue_puts s1 =
      queue_puts s @ [(touch_inputs s)\<lparr>current_state := LV_INDEV_STATE_REL\<rparr>]"
    by (simp add: s1_def)
  moreover have "polls cfg ((b, a, d) # ticks) s = Inr s'"
    by (simp add: e q(1))
  moreover have "ft6x36_touch_queue_handle s' =
      Some [(touch_inputs s)\<lparr>current_state := LV_INDEV_STATE_REL\<rparr>]"
    by (simp add: q(3) s1_def)
  ultimately show ?thesis using e q(1,2) by blast
qed

theorem release_published_once_witness:
  "inited touched \<and> coordinates_queue (panel False False False) \<and>
   ft6x36_touch_queue_handle touched \<noteq> None \<and>
   current_state (touch_inputs touched) = LV_INDEV_STATE_PR \<and>
   \<not> single_touch (filled 0) (delivers [0, 0, 0, 0, 0]) \<and>
   \<not> single_touch (filled 0) fails \<and>
   polls (panel False False False)
     [(filled 0, delivers [0, 0, 0, 0, 0], \<lparr>point_x = 0, point_y = 0, state = LV_INDEV_STATE_REL\<rparr>),
      (filled 0, delivers [0, 0, 0, 0, 0], \<lparr>point_x = 0, point_y = 0, state = LV_INDEV_STATE_REL\<rparr>),
      (filled 0, fails, \<lparr>point_x = 0, point_y = 0, state = LV_INDEV_STATE_REL\<rparr>)]
     touched =
   Inr (touched
     \<lparr>touch_inputs := \<lparr>last_x = 5, last_y = 7, current_state = LV_INDEV_STATE_REL\<rparr>,
      ft6x36_touch_queue_handle :=
        Some [\<lparr>last_x = 5, last_y = 7, current_state = LV_INDEV_STATE_REL\<rparr>],
      i2c_reads := i2c_reads touched @ [(0, 0x38, 0x02, 5), (0, 0x38, 0x02, 5), (0, 0x38, 0x02, 5)],
      esp_log := esp_log touched @ [E_error_talking_to_touch_ic ESP_FAIL],
      queue_puts :=
        [sentinel, \<lparr>last_x = 5, last_y = 7, current_state = LV_INDEV_STATE_PR\<rparr>,
         \<lparr>last_x = 5, last_y = 7, current_state = LV_INDEV_STATE_REL\<rparr>]\<rparr>)"
proof -
  have h: "inited touched" "coordinates_queue (panel False False False)"
      "ft6x36_touch_queue_handle touched \<noteq> None"
      "current_state (touch_inputs touched) = LV_INDEV_STATE_PR"
    by (simp_all add: example_defs)
  have n: "\<not> single_touch (filled 0) (delivers [0, 0, 0, 0, 0])"
      "\<not> single_touch (filled 0) fails"
    by (simp_all add: single_touch_def received_def example_defs)
  have r: "\<forall>t \<in> set
      [(filled 0, delivers [0, 0, 0, 0, 0], \<lparr>point_x = 0, point_y = 0, state = LV_INDEV_STATE_REL\<rparr>),
       (filled 0, fails, \<lparr>point_x = 0, point_y = 0, state = LV_INDEV_STATE_REL\<rparr>)].
      \<not> single_touch (fst t) (fst (snd t))"
    using n by simp
  have ev: "polls (panel False False False)
     [(filled 0, delivers [0, 0, 0, 0, 0], \<lparr>point_x = 0, point_y = 0, state = LV_INDEV_STATE_REL\<rparr>),
      (filled 0, delivers [0, 0, 0, 0, 0], \<lparr>point_x = 0, point_y = 0, state = LV_INDEV_STATE_REL\<rparr>),
      (filled 0, fails, \<lparr>point_x = 0, point_y = 0, state = LV_INDEV_STATE_REL\<rparr>)]
     touched =
   Inr (touched
     \<lparr>touch_inputs := \<lparr>last_x = 5, last_y = 7, current_state = LV_INDEV_STATE_REL\<rparr>,
      ft6x36_touch_queue_handle :=
        Some [\<lparr>last_x = 5, last_y = 7, current_state = LV_INDEV_STATE_REL\<rparr>],
      i2c_reads := i2c_reads touched @ [(0, 0x38, 0x02, 5), (0, 0x38, 0x02, 5), (0, 0x38, 0x02, 5)],
      esp_log := esp_log touched @ [E_error_talking_to_touch_ic ESP_FAIL],
      queue_puts :=
        [sentinel, \<lparr>last_x = 5, last_y = 7, current_state = LV_INDEV_STATE_PR\<rparr>,
         \<lparr>last_x = 5, last_y = 7, current_state = LV_INDEV_STATE_REL\<rparr>]\<rparr>)"
    by (simp add: ft6x36_read_def lvgl_i2c_read_def esp_logx_def xQueueOverwrite_def Let_def
        example_defs)
  from release_published_once [OF h n(1) r,
      of "\<lparr>point_x = 0, point_y = 0, state = LV_INDEV_STATE_REL\<rparr>"]
  obtain s' where "polls (panel False False False)
     [(filled 0, delivers [0, 0, 0, 0, 0], \<lparr>point_x = 0, point_y = 0, state = LV_INDEV_STATE_REL\<rparr>),
      (filled 0, delivers [0, 0, 0, 0, 0], \<lparr>point_x = 0, point_y = 0, state = LV_INDEV_STATE_REL\<rparr>),
      (filled 0, fails, \<lparr>point_x = 0, point_y = 0, state = LV_INDEV_STATE_REL\<rparr>)]
     touched = Inr s'"
    by blast
  with h n ev show ?thesis by simp
qed

text \<open>
  C6. With the queue compiled in and created, a run of polls that each meet a single
  touch puts one item into the queue per poll, in order, each the sample built from that
  poll's bytes: \<open>N\<close> polls, \<open>N\<close> items.
\<close>

theorem presses_published_each:
  "inited s \<Longrightarrow> coordinates_queue cfg \<Longrightarrow> ft6x36_touch_queue_handle s \<noteq> None \<Longrightarrow>
   \<forall>t \<in> set ticks. single_touch (fst t) (fst (snd t)) \<Longrightarrow>
     \<exists>s'. polls cfg ticks s = Inr s' \<and>
          queue_puts s' =
            queue_puts s @ map (\<lambda>t. fresh_sample cfg (received (fst t) (fst (snd t)))) ticks \<and>
          length (queue_puts s') = length (queue_puts s) + length ticks \<and>
          inited s' \<and> ft6x36_touch_queue_handle s' \<noteq> None"
proof (induction ticks arbitrary: s)
  case Nil
  then show ?case by simp
next
  case (Cons t ticks)
  obtain b a d where t: "t = (b, a, d)" by (cases t) auto
  from Cons.prems(4) t have st: "single_touch b a" by simp
  define s1 where "s1 = s\<lparr>touch_inputs := fresh_sample cfg (received b a),
         ft6x36_touch_queue_handle := Some [fresh_sample cfg (received b a)],
         i2c_reads := i2c_reads s @
           [(i2c_touch_port cfg, current_dev_addr s, td_stat_reg cfg, 5)],
         esp_log := esp_log s @
           [V_x_y (last_x (fresh_sample cfg (received b a)))
                  (last_y (fresh_sample cfg (received b a)))],
         queue_puts := queue_puts s @ [fresh_sample cfg (received b a)]\<rparr>"
  have e: "ft6x36_read cfg b a d s =
      Inr (False,
           d\<lparr>point_x := last_x (fresh_sample cfg (received b a)),
            point_y := last_y (fresh_sample cfg (received b a)),
            state := LV_INDEV_STATE_PR\<rparr>, s1)"
    unfolding ft6x36_read_pressed [OF Cons.prems(1) st] s1_def
    using Cons.prems(2,3) by simp
  have p: "inited s1" "ft6x36_touch_queue_handle s1 \<noteq> None"
    using Cons.prems(1) by (simp_all add: s1_def)
  from Cons.prems(4) have r: "\<forall>t \<in> set ticks. single_touch (fst t) (fst (snd t))"
    by simp
  from Cons.IH [OF p(1) Cons.prems(2) p(2) r] obtain s' where
    "polls cfg ticks s1 = Inr s'"
    "queue_puts s' =
       queue_puts s1 @ map (\<lambda>t. fresh_sample cfg (received (fst t) (fst (snd t)))) ticks"
    "inited s'" "ft6x36_touch_queue_handle s' \<noteq> None"
    by blast
  then show ?case
    by (simp add: t e s1_def)
qed

theorem presses_published_each_witness:
  "inited booted \<and> coordinates_queue (panel False False False) \<and>
   ft6x36_touch_queue_handle booted \<noteq> None \<and>
   single_touch (filled 0) (delivers [1, 0, 5, 0, 7]) \<and>
   single_touch (filled 0) (delivers [1, 0, 6, 0, 7]) \<and>
   polls (panel False False False)
     [(filled 0, delivers [1, 0, 5, 0, 7], \<lparr>point_x = 0, point_y = 0, state = LV_INDEV_STATE_REL\<rparr>),
      (filled 0, delivers [1, 0, 5, 0, 7], \<lparr>point_x = 0, point_y = 0, state = LV_INDEV_STATE_REL\<rparr>),
      (filled 0, delivers [1, 0, 6, 0, 7], \<lparr>point_x = 0, point_y = 0, state = LV_INDEV_STATE_REL\<rparr>)]
     booted =
   Inr (booted
     \<lparr>touch_inputs := \<lparr>last_x = 6, last_y = 7, current_state = LV_INDEV_STATE_PR\<rparr>,
      ft6x36_touch_queue_handle :=
        Some [\<lparr>last_x = 6, last_y = 7, current_state = LV_INDEV_STATE_PR\<rparr>],
      i2c_reads := i2c_reads booted @ [(0, 0x38, 0x02, 5), (0, 0x38, 0x02, 5), (0, 0x38, 0x02, 5)],
      esp_log := esp_log booted @ [V_x_y 5 7, V_x_y 5 7, V_x_y 6 7],
      queue_puts :=
        [sentinel, \<lparr>last_x = 5, last_y = 7, current_state = LV_INDEV_STATE_PR\<rparr>,
         \<lparr>last_x = 5, last_y = 7, current_state = LV_INDEV_STATE_PR\<rparr>,
         \<lparr>last_x = 6, last_y = 7, current_state = LV_INDEV_STATE_PR\<rparr>]\<rparr>)"
proof -
  have h: "inited booted" "coordinates_queue (panel False False False)"
      "ft6x36_touch_queue_handle booted \<noteq> None"
    by (simp_all add: example_defs)
  have n: "single_touch (filled 0) (delivers [1, 0, 5, 0, 7])"
      "single_touch (filled 0) (delivers [1, 0, 6, 0, 7])"
    by (simp_all add: single_touch_def received_def example_defs)
  have r: "\<forall>t \<in> set
      [(filled 0, delivers [1, 0, 5, 0, 7], \<lparr>point_x = 0, point_y = 0, state = LV_INDEV_STATE_REL\<rparr>),
       (filled 0, delivers [1, 0, 5, 0, 7], \<lparr>point_x = 0, point_y = 0, state = LV_INDEV_STATE_REL\<rparr>),
       (filled 0, delivers [1, 0, 6, 0, 7], \<lparr>point_x = 0, point_y = 0, state = LV_INDEV_STATE_REL\<rparr>)].
      single_touch (fst t) (fst (snd t))"
    using n by simp
  have ev: "polls (panel False False False)
     [(filled 0, delivers [1, 0, 5, 0, 7], \<lparr>point_x = 0, point_y = 0, state = LV_INDEV_STATE_REL\<rparr>),
      (filled 0, delivers [1, 0, 5, 0, 7], \<lparr>point_x = 0, point_y = 0, state = LV_INDEV_STATE_REL\<rparr>),
      (filled 0, delivers [1, 0, 6, 0, 7], \<lparr>point_x = 0, point_y = 0, state = LV_INDEV_STATE_REL\<rparr>)]
     booted =
   Inr (booted
     \<lparr>touch_inputs := \<lparr>last_x = 6, last_y = 7, current_state = LV_INDEV_STATE_PR\<rparr>,
      ft6x36_touch_queue_handle :=
        Some [\<lparr>last_x = 6, last_y = 7, current_state = LV_INDEV_STATE_PR\<rparr>],
      i2c_reads := i2c_reads booted @ [(0, 0x38, 0x02, 5), (0, 0x38, 0x02, 5), (0, 0x38, 0x02, 5)],
      esp_log := esp_log booted @ [V_x_y 5 7, V_x_y 5 7, V_x_y 6 7],
      queue_puts :=
        [sentinel, \<lparr>last_x = 5, last_y = 7, current_state = LV_INDEV_STATE_PR\<rparr>,
         \<lparr>last_x = 5, last_y = 7, current_state = LV_INDEV_STATE_PR\<rparr>,
         \<lparr>last_x = 6, last_y = 7, current_state = LV_INDEV_STATE_PR\<rparr>]\<rparr>)"
    by (simp add: ft6x36_read_def lvgl_i2c_read_def esp_logx_def xQueueOverwrite_def Let_def
        decode_def swap_block_def invert_x_block_def invert_y_block_def example_defs)
  from presses_published_each [OF h r]
  obtain s' where "polls (panel False False False)
     [(filled 0, delivers [1, 0, 5, 0, 7], \<lparr>point_x = 0, point_y = 0, state = LV_INDEV_STATE_REL\<rparr>),
      (filled 0, delivers [1, 0, 5, 0, 7], \<lparr>point_x = 0, point_y = 0, state = LV_INDEV_STATE_REL\<rparr>),
      (filled 0, delivers [1, 0, 6, 0, 7], \<lparr>point_x = 0, point_y = 0, state = LV_INDEV_STATE_REL\<rparr>)]
     booted = Inr s'"
    by blast
  with h n ev show ?thesis by simp
qed

subsection \<open>ft6x06\_init\<close>

lemma read8_eq:
  "ft6x06_i2c_read8 cfg sl r b a s =
     (ans_err a, (\<lambda>i. if i < 1 \<and> i < length (ans_bytes a) then ans_bytes a ! i else b i),
      s\<lparr>i2c_reads := i2c_reads s @ [(i2c_touch_port cfg, sl, r, 1)]\<rparr>)"
  by (simp add: ft6x06_i2c_read8_def lvgl_i2c_read_def)

text \<open>
  C9, as the code has it. Every call of \<open>ft6x06_init\<close> returns with \<open>inited\<close> set and
  the low eight bits of the given address stored, after exactly five one-byte reads; no
  read's failure ends it. Of the reads only the first has its status looked at: its
  failure adds an error line, a failure of the other four adds none. With the queue
  compiled in and allocated, the new queue receives the sample stored at that moment,
  which is the sentinel (-1, -1, Released) as long as no poll has stored another; a
  failed allocation is logged and leaves the handle \<open>NULL\<close>.
\<close>

theorem init_effects:
  "\<exists>s'. ft6x06_init cfg b answers alloc_ok dev_addr s = Inr s' \<and>
     inited s' \<and> current_dev_addr s' = ucast dev_addr \<and> touch_inputs s' = touch_inputs s \<and>
     i2c_reads s' = i2c_reads s @
       [(i2c_touch_port cfg, ucast dev_addr, panel_id_reg cfg, 1),
        (i2c_touch_port cfg, ucast dev_addr, chipselect_reg cfg, 1),
        (i2c_touch_port cfg, ucast dev_addr, dev_mode_reg cfg, 1),
        (i2c_touch_port cfg, ucast dev_addr, firmware_id_reg cfg, 1),
        (i2c_touch_port cfg, ucast dev_addr, releasecode_reg cfg, 1)] \<and>
     (\<exists>v1 v2 v3 v4 v5.
        esp_log s' = esp_log s @ [I_found_touch_panel_controller] @
          (if ans_err (panel_id_ans answers) \<noteq> ESP_OK
           then [E_error_reading_from_device 1] else []) @
          [I_device_id v1, I_chip_id v2, I_device_mode v3, I_firmware_id v4,
           I_release_code v5] @
          (if coordinates_queue cfg \<and> \<not> alloc_ok then [E_error_creating_queue] else [])) \<and>
     (coordinates_queue cfg \<and> alloc_ok \<longrightarrow>
        ft6x36_touch_queue_handle s' = Some [touch_inputs s] \<and>
        queue_puts s' = queue_puts s @ [touch_inputs s]) \<and>
     (coordinates_queue cfg \<and> alloc_ok \<and> touch_inputs s = sentinel \<longrightarrow>
        ft6x36_touch_queue_handle s' = Some [sentinel]) \<and>
     (coordinates_queue cfg \<and> \<not> alloc_ok \<longrightarrow>
        ft6x36_touch_queue_handle s' = None \<and> queue_puts s' = queue_puts s) \<and>
     (\<not> coordinates_queue cfg \<longrightarrow>
        ft6x36_touch_queue_handle s' = ft6x36_touch_queue_handle s \<and>
        queue_puts s' = queue_puts s)"
proof (cases "coordinates_queue cfg")
  case False
  then show ?thesis
    by (simp add: ft6x06_init_def read8_eq esp_logx_def Let_def)
next
  case True
  show ?thesis
  proof (cases alloc_ok)
    case True
    with \<open>coordinates_queue cfg\<close> show ?thesis
      by (simp add: ft6x06_init_def read8_eq esp_logx_def Let_def xQueueCreate_def
          xQueueSend_def FT6X36_TOUCH_QUEUE_ELEMENTS_def)
  next
    case False
    with \<open>coordinates_queue cfg\<close> show ?thesis
      by (simp add: ft6x06_init_def read8_eq esp_logx_def Let_def xQueueCreate_def)
  qed
qed

theorem init_effects_witness:
  "ft6x06_init (panel False False False) (filled 0) probe True 0x38 power_on = Inr booted \<and>
   inited booted \<and> current_dev_addr booted = 0x38 \<and> touch_inputs power_on = sentinel \<and>
   ft6x36_touch_queue_handle booted = Some [sentinel] \<and>
   ft6x06_init (panel False False False) (filled 0) probe_cut False 0x38 power_on =
     Inr (booted\<lparr>ft6x36_touch_queue_handle := None, queue_puts := [],
                 esp_log := esp_log booted @ [E_error_creating_queue]\<rparr>)"
proof -
  have e1: "ft6x06_init (panel False False False) (filled 0) probe True 0x38 power_on =
      Inr booted"
    by (rule booted_is_init)
  have e2: "ft6x06_init (panel False False False) (filled 0) probe_cut False 0x38 power_on =
     Inr (booted\<lparr>ft6x36_touch_queue_handle := None, queue_puts := [],
                 esp_log := esp_log booted @ [E_error_creating_queue]\<rparr>)"
    by (simp add: ft6x06_init_def read8_eq esp_logx_def xQueueCreate_def Let_def probe_cut_def
        example_defs)
  from init_effects [of "panel False False False" "filled 0" probe True "0x38" power_on] e1
  have "inited booted \<and> current_dev_addr booted = ucast (0x38 :: 16 word) \<and>
      ft6x36_touch_queue_handle booted = Some [touch_inputs power_on]"
    by (simp add: panel_def)
  then show ?thesis using e1 e2 by (simp add: power_on_def)
qed

text \<open>
  C9 as the specification states it fails in three places, all met by one second call of
  \<open>ft6x06_init\<close>: after a first initialisation and a poll that stored (5, 7, Pressed), a
  call with the address \<open>0x0138\<close> whose last four reads fail seeds the new queue with
  (5, 7, Pressed), not the sentinel; stores \<open>0x38\<close>, not the address given; and logs no
  error for the four failed reads.
\<close>

theorem reinit_counterexample:
  "ft6x06_init (panel False False False) (filled 0) probe True 0x38 power_on = Inr booted \<and>
   ft6x36_read (panel False False False) (filled 0) (delivers [1, 0, 5, 0, 7])
       \<lparr>point_x = 0, point_y = 0, state = LV_INDEV_STATE_REL\<rparr> booted =
     Inr (False, \<lparr>point_x = 5, point_y = 7, state = LV_INDEV_STATE_PR\<rparr>, touched) \<and>
   ft6x06_init (panel False False False) (filled 0) probe_cut True 0x0138 touched =
     Inr (touched
       \<lparr>current_dev_addr := 0x38,
        ft6x36_touch_queue_handle :=
          Some [\<lparr>last_x = 5, last_y = 7, current_state = LV_INDEV_STATE_PR\<rparr>],
        i2c_reads := i2c_reads touched @
          [(0, 0x38, 0xA8, 1), (0, 0x38, 0xA3, 1), (0, 0x38, 0x00, 1), (0, 0x38, 0xA6, 1),
           (0, 0x38, 0xAF, 1)],
        esp_log := esp_log touched @
          [I_found_touch_panel_controller, I_device_id 0x11, I_chip_id 0x11,
           I_device_mode 0x11, I_firmware_id 0x11, I_release_code 0x11],
        queue_puts := queue_puts touched @
          [\<lparr>last_x = 5, last_y = 7, current_state = LV_INDEV_STATE_PR\<rparr>]\<rparr>) \<and>
   \<lparr>last_x = 5, last_y = 7, current_state = LV_INDEV_STATE_PR\<rparr> \<noteq> sentinel \<and>
   (ucast (0x38 :: 8 word) :: 16 word) \<noteq> 0x0138 \<and>
   ans_err (chipselect_ans probe_cut) \<noteq> ESP_OK"
proof -
  have e3: "ft6x06_init (panel False False False) (filled 0) probe_cut True 0x0138 touched =
     Inr (touched
       \<lparr>current_dev_addr := 0x38,
        ft6x36_touch_queue_handle :=
          Some [\<lparr>last_x = 5, last_y = 7, current_state = LV_INDEV_STATE_PR\<rparr>],
        i2c_reads := i2c_reads touched @
          [(0, 0x38, 0xA8, 1), (0, 0x38, 0xA3, 1), (0, 0x38, 0x00, 1), (0, 0x38, 0xA6, 1),
           (0, 0x38, 0xAF, 1)],
        esp_log := esp_log touched @
          [I_found_touch_panel_controller, I_device_id 0x11, I_chip_id 0x11,
           I_device_mode 0x11, I_firmware_id 0x11, I_release_code 0x11],
        queue_puts := queue_puts touched @
          [\<lparr>last_x = 5, last_y = 7, current_state = LV_INDEV_STATE_PR\<rparr>]\<rparr>)"
    by (simp add: ft6x06_init_def read8_eq esp_logx_def xQueueCreate_def xQueueSend_def
        FT6X36_TOUCH_QUEUE_ELEMENTS_def Let_def probe_cut_def example_defs)
  have "\<lparr>last_x = 5, last_y = 7, current_state = LV_INDEV_STATE_PR\<rparr> \<noteq> sentinel"
    by (simp add: sentinel_def)
  moreover have "(ucast (0x38 :: 8 word) :: 16 word) \<noteq> 0x0138" by simp
  moreover have "ans_err (chipselect_ans probe_cut) \<noteq> ESP_OK"
    by (simp add: probe_cut_def example_defs)
  ultimately show ?thesis
    using booted_is_init [of False False False]
      touched_is_read [of "\<lparr>point_x = 0, point_y = 0, state = LV_INDEV_STATE_REL\<rparr>"] e3
    by simp
qed

end
